theory Spec2Isabelle
  imports Complex_Main
begin

section \<open>Data model (types)\<close>

text \<open>
  \<open>AllPieceType\<close> is the union of the eight base kinds and the six promoted kinds.
  \<open>HandPieceType\<close> is \<open>Exclude<PieceType, 'king'>\<close>: the seven kinds a reserve can
  hold, written capitalised here; \<open>ofHand\<close> is the inclusion into \<open>AllPieceType\<close>.
\<close>

datatype AllPieceType =
    king | rook | bishop | gold | silver | knight | lance | pawn
  | promotedRook | promotedBishop | promotedSilver | promotedKnight
  | promotedLance | promotedPawn

datatype HandPieceType = Rook | Bishop | Gold | Silver | Knight | Lance | Pawn

fun ofHand :: "HandPieceType \<Rightarrow> AllPieceType" where
  "ofHand Rook = rook"
| "ofHand Bishop = bishop"
| "ofHand Gold = gold"
| "ofHand Silver = silver"
| "ofHand Knight = knight"
| "ofHand Lance = lance"
| "ofHand Pawn = pawn"

datatype Player = sente | gote

record Position =
  col :: int
  row :: int

record Piece =
  type :: AllPieceType
  owner :: Player
  isPromoted :: bool

type_synonym Square = "Piece option"

type_synonym Board = "Square list list"

text \<open>A \<open>Hand\<close> is an object with one numeric property per reserve kind.\<close>

type_synonym Hand = "HandPieceType \<Rightarrow> int"

text \<open>
  \<open>MoveAction\<close> and \<open>DropAction\<close>: the fields \<open>from\<close>, \<open>to\<close>, \<open>piece\<close> of the
  source carry the prefix of their record here.
\<close>

record MoveAction =
  moveFrom :: Position
  moveTo :: Position
  movePiece :: AllPieceType
  captured :: "AllPieceType option"
  promote :: bool

record DropAction =
  dropTo :: Position
  dropPiece :: HandPieceType

datatype Move = MoveOf MoveAction | DropOf DropAction

datatype GamePhase = openingPhase | middlegamePhase | endgamePhase

datatype RepetitionResult = draw | wonBy Player

datatype GameResult =
    ongoing
  | checkmate Player
  | stalemate Player
  | repetition RepetitionResult
  | resignation Player

record GameState =
  board :: Board
  hands :: "Player \<Rightarrow> Hand"
  currentPlayer :: Player
  moveHistory :: "Move list"
  positionHistory :: "string list"
  moveCount :: int
  gamePhase :: GamePhase
  result :: GameResult
  isCheck :: bool

text \<open>
  A board of the declared shape: nine rows of nine squares. Positions carry
  \<open>Column\<close> and \<open>Row\<close> values, both in 1..9.
\<close>

definition wfBoard :: "Board \<Rightarrow> bool" where
  "wfBoard b = (length b = 9 \<and> list_all (\<lambda>r. length r = 9) b)"

definition isValidPosition :: "int \<Rightarrow> int \<Rightarrow> bool" where
  "isValidPosition c r = (c \<ge> 1 \<and> c \<le> 9 \<and> r \<ge> 1 \<and> r \<le> 9)"

definition validPos :: "Position \<Rightarrow> bool" where
  "validPos p = isValidPosition (col p) (row p)"

section \<open>board.ts: coordinates, reserves, promotion\<close>

definition createEmptyHand :: Hand where
  "createEmptyHand = (\<lambda>k. 0)"

definition createPiece :: "AllPieceType \<Rightarrow> Player \<Rightarrow> Piece" where
  "createPiece t ow = \<lparr>type = t, owner = ow, isPromoted = False\<rparr>"

text \<open>\<open>positionToIndex\<close> returns \<open>(rowIndex, colIndex)\<close>.\<close>

definition positionToIndex :: "Position \<Rightarrow> int \<times> int" where
  "positionToIndex pos = (row pos - 1, 9 - col pos)"

definition indexToPosition :: "nat \<Rightarrow> nat \<Rightarrow> Position" where
  "indexToPosition rowIndex colIndex = \<lparr>col = 9 - int colIndex, row = int rowIndex + 1\<rparr>"

definition getPieceAt :: "Board \<Rightarrow> Position \<Rightarrow> Square" where
  "getPieceAt b pos =
     (case positionToIndex pos of (rowIndex, colIndex) \<Rightarrow> b ! nat rowIndex ! nat colIndex)"

text \<open>The write \<open>b[r][c] = sq\<close> on a fresh copy.\<close>

definition setSquare :: "Board \<Rightarrow> nat \<Rightarrow> nat \<Rightarrow> Square \<Rightarrow> Board" where
  "setSquare b r c sq = b[r := (b ! r)[c := sq]]"

definition addToHand :: "Hand \<Rightarrow> HandPieceType \<Rightarrow> Hand" where
  "addToHand hand pieceType = hand(pieceType := hand pieceType + 1)"

datatype error =
    CannotRemoveFromHand HandPieceType
  | CannotPromote AllPieceType
  | KingCannotBeCaptured

definition removeFromHand :: "Hand \<Rightarrow> HandPieceType \<Rightarrow> error + Hand" where
  "removeFromHand hand pieceType =
     (if hand pieceType \<le> 0 then Inl (CannotRemoveFromHand pieceType)
      else Inr (hand(pieceType := hand pieceType - 1)))"

fun PROMOTION_MAP :: "AllPieceType \<Rightarrow> AllPieceType option" where
  "PROMOTION_MAP rook = Some promotedRook"
| "PROMOTION_MAP bishop = Some promotedBishop"
| "PROMOTION_MAP silver = Some promotedSilver"
| "PROMOTION_MAP knight = Some promotedKnight"
| "PROMOTION_MAP lance = Some promotedLance"
| "PROMOTION_MAP pawn = Some promotedPawn"
| "PROMOTION_MAP _ = None"

fun UNPROMOTE_MAP :: "AllPieceType \<Rightarrow> AllPieceType option" where
  "UNPROMOTE_MAP promotedRook = Some rook"
| "UNPROMOTE_MAP promotedBishop = Some bishop"
| "UNPROMOTE_MAP promotedSilver = Some silver"
| "UNPROMOTE_MAP promotedKnight = Some knight"
| "UNPROMOTE_MAP promotedLance = Some lance"
| "UNPROMOTE_MAP promotedPawn = Some pawn"
| "UNPROMOTE_MAP _ = None"

definition canPromote :: "AllPieceType \<Rightarrow> bool" where
  "canPromote pieceType = (PROMOTION_MAP pieceType \<noteq> None)"

definition promotePiece :: "AllPieceType \<Rightarrow> error + AllPieceType" where
  "promotePiece pieceType =
     (case PROMOTION_MAP pieceType of
        None \<Rightarrow> Inl (CannotPromote pieceType)
      | Some promoted \<Rightarrow> Inr promoted)"

definition isPromotedPiece :: "AllPieceType \<Rightarrow> bool" where
  "isPromotedPiece pieceType = (UNPROMOTE_MAP pieceType \<noteq> None)"

definition unpromotePiece :: "AllPieceType \<Rightarrow> AllPieceType" where
  "unpromotePiece pieceType =
     (case UNPROMOTE_MAP pieceType of Some base \<Rightarrow> base | None \<Rightarrow> pieceType)"

definition toHandPieceType :: "AllPieceType \<Rightarrow> error + HandPieceType" where
  "toHandPieceType pieceType =
     (case unpromotePiece pieceType of
        king \<Rightarrow> Inl KingCannotBeCaptured
      | rook \<Rightarrow> Inr Rook
      | bishop \<Rightarrow> Inr Bishop
      | gold \<Rightarrow> Inr Gold
      | silver \<Rightarrow> Inr Silver
      | knight \<Rightarrow> Inr Knight
      | lance \<Rightarrow> Inr Lance
      | pawn \<Rightarrow> Inr Pawn
      | _ \<Rightarrow> Inl KingCannotBeCaptured)"
  \<comment> \<open>\<open>unpromotePiece\<close> only returns base kinds, so the last case is never taken\<close>

definition cloneBoard :: "Board \<Rightarrow> Board" where
  "cloneBoard b = map (\<lambda>r. map (\<lambda>square. case square of Some p \<Rightarrow> Some p | None \<Rightarrow> None) r) b"


text \<open>
  \<open>createInitialBoard\<close>: the source fills an empty 9x9 array square by square; the
  result is written out row by row (row index 0 is rank 1, column index 0 is file 9).
\<close>

definition emptyRow :: "Square list" where
  "emptyRow = replicate 9 None"

definition backRank :: "Player \<Rightarrow> Square list" where
  "backRank ow = map (\<lambda>t. Some (createPiece t ow))
     [lance, knight, silver, gold, king, gold, silver, knight, lance]"

definition pawnRank :: "Player \<Rightarrow> Square list" where
  "pawnRank ow = replicate 9 (Some (createPiece pawn ow))"

definition createInitialBoard :: Board where
  "createInitialBoard =
     [backRank gote,
      [None, Some (createPiece rook gote), None, None, None, None, None,
       Some (createPiece bishop gote), None],
      pawnRank gote,
      emptyRow, emptyRow, emptyRow,
      pawnRank sente,
      [None, Some (createPiece bishop sente), None, None, None, None, None,
       Some (createPiece rook sente), None],
      backRank sente]"

definition createInitialGameState :: GameState where
  "createInitialGameState =
     \<lparr>board = createInitialBoard,
      hands = (\<lambda>p. createEmptyHand),
      currentPlayer = sente,
      moveHistory = [],
      positionHistory = [],
      moveCount = 0,
      gamePhase = openingPhase,
      result = ongoing,
      isCheck = False\<rparr>"

section \<open>moves.ts: the movement catalog and the raw move generator\<close>

record Direction =
  dcol :: int
  drow :: int

datatype MoveType = step | slide

record MovePattern =
  direction :: Direction
  kind :: MoveType

definition UP :: Direction where "UP = \<lparr>dcol = 0, drow = -1\<rparr>"
definition DOWN :: Direction where "DOWN = \<lparr>dcol = 0, drow = 1\<rparr>"
definition LEFT :: Direction where "LEFT = \<lparr>dcol = -1, drow = 0\<rparr>"
definition RIGHT :: Direction where "RIGHT = \<lparr>dcol = 1, drow = 0\<rparr>"
definition UP_LEFT :: Direction where "UP_LEFT = \<lparr>dcol = -1, drow = -1\<rparr>"
definition UP_RIGHT :: Direction where "UP_RIGHT = \<lparr>dcol = 1, drow = -1\<rparr>"
definition DOWN_LEFT :: Direction where "DOWN_LEFT = \<lparr>dcol = -1, drow = 1\<rparr>"
definition DOWN_RIGHT :: Direction where "DOWN_RIGHT = \<lparr>dcol = 1, drow = 1\<rparr>"
definition KNIGHT_LEFT :: Direction where "KNIGHT_LEFT = \<lparr>dcol = -1, drow = -2\<rparr>"
definition KNIGHT_RIGHT :: Direction where "KNIGHT_RIGHT = \<lparr>dcol = 1, drow = -2\<rparr>"

definition pat :: "Direction \<Rightarrow> MoveType \<Rightarrow> MovePattern" where
  "pat d k = \<lparr>direction = d, kind = k\<rparr>"

definition KING_MOVES :: "MovePattern list" where
  "KING_MOVES = [pat UP step, pat DOWN step, pat LEFT step, pat RIGHT step,
     pat UP_LEFT step, pat UP_RIGHT step, pat DOWN_LEFT step, pat DOWN_RIGHT step]"

definition ROOK_MOVES :: "MovePattern list" where
  "ROOK_MOVES = [pat UP slide, pat DOWN slide, pat LEFT slide, pat RIGHT slide]"

definition PROMOTED_ROOK_MOVES :: "MovePattern list" where
  "PROMOTED_ROOK_MOVES = ROOK_MOVES @
     [pat UP_LEFT step, pat UP_RIGHT step, pat DOWN_LEFT step, pat DOWN_RIGHT step]"

definition BISHOP_MOVES :: "MovePattern list" where
  "BISHOP_MOVES = [pat UP_LEFT slide, pat UP_RIGHT slide, pat DOWN_LEFT slide,
     pat DOWN_RIGHT slide]"

definition PROMOTED_BISHOP_MOVES :: "MovePattern list" where
  "PROMOTED_BISHOP_MOVES = BISHOP_MOVES @
     [pat UP step, pat DOWN step, pat LEFT step, pat RIGHT step]"

definition GOLD_MOVES :: "MovePattern list" where
  "GOLD_MOVES = [pat UP step, pat UP_LEFT step, pat UP_RIGHT step, pat LEFT step,
     pat RIGHT step, pat DOWN step]"

definition SILVER_MOVES :: "MovePattern list" where
  "SILVER_MOVES = [pat UP step, pat UP_LEFT step, pat UP_RIGHT step, pat DOWN_LEFT step,
     pat DOWN_RIGHT step]"

definition KNIGHT_MOVES :: "MovePattern list" where
  "KNIGHT_MOVES = [pat KNIGHT_LEFT step, pat KNIGHT_RIGHT step]"

definition LANCE_MOVES :: "MovePattern list" where
  "LANCE_MOVES = [pat UP slide]"

definition PAWN_MOVES :: "MovePattern list" where
  "PAWN_MOVES = [pat UP step]"

fun PIECE_MOVES :: "AllPieceType \<Rightarrow> MovePattern list" where
  "PIECE_MOVES king = KING_MOVES"
| "PIECE_MOVES rook = ROOK_MOVES"
| "PIECE_MOVES bishop = BISHOP_MOVES"
| "PIECE_MOVES gold = GOLD_MOVES"
| "PIECE_MOVES silver = SILVER_MOVES"
| "PIECE_MOVES knight = KNIGHT_MOVES"
| "PIECE_MOVES lance = LANCE_MOVES"
| "PIECE_MOVES pawn = PAWN_MOVES"
| "PIECE_MOVES promotedRook = PROMOTED_ROOK_MOVES"
| "PIECE_MOVES promotedBishop = PROMOTED_BISHOP_MOVES"
| "PIECE_MOVES promotedSilver = GOLD_MOVES"
| "PIECE_MOVES promotedKnight = GOLD_MOVES"
| "PIECE_MOVES promotedLance = GOLD_MOVES"
| "PIECE_MOVES promotedPawn = GOLD_MOVES"

definition adjustDirectionForPlayer :: "Direction \<Rightarrow> Player \<Rightarrow> Direction" where
  "adjustDirectionForPlayer d ow =
     (if ow = gote then \<lparr>dcol = - dcol d, drow = - drow d\<rparr> else d)"

text \<open>
  The \<open>while\<close> loop of a slide pattern, entered at \<open>(currentCol, currentRow)\<close>. Every
  direction of the catalog moves (lemma \<open>catalog_directions_move\<close> below); the test on
  the direction only makes the recursion total.
\<close>

function slideWalk :: "Board \<Rightarrow> Player \<Rightarrow> Direction \<Rightarrow> int \<Rightarrow> int \<Rightarrow> Position list" where
  "slideWalk b ow d currentCol currentRow =
     (if isValidPosition currentCol currentRow \<and> (dcol d \<noteq> 0 \<or> drow d \<noteq> 0) then
        (let targetPos = \<lparr>col = currentCol, row = currentRow\<rparr> in
         case getPieceAt b targetPos of
           None \<Rightarrow> targetPos # slideWalk b ow d (currentCol + dcol d) (currentRow + drow d)
         | Some targetPiece \<Rightarrow> if owner targetPiece \<noteq> ow then [targetPos] else [])
      else [])"
  by pat_completeness auto
termination
  by (relation "measure (\<lambda>(b, ow, d, c, r).
        if dcol d > 0 then nat (10 - c)
        else if dcol d < 0 then nat c
        else if drow d > 0 then nat (10 - r)
        else nat r)")
     (auto simp: isValidPosition_def)

declare slideWalk.simps [simp del]

definition stepMove :: "Board \<Rightarrow> Player \<Rightarrow> Direction \<Rightarrow> Position \<Rightarrow> Position list" where
  "stepMove b ow d fromPos =
     (let newCol = col fromPos + dcol d; newRow = row fromPos + drow d in
      if isValidPosition newCol newRow then
        (let targetPos = \<lparr>col = newCol, row = newRow\<rparr> in
         case getPieceAt b targetPos of
           None \<Rightarrow> [targetPos]
         | Some targetPiece \<Rightarrow> if owner targetPiece \<noteq> ow then [targetPos] else [])
      else [])"

text \<open>\<open>getRawMoves\<close>: the squares are pushed pattern by pattern, in catalog order.\<close>

definition getRawMoves :: "Board \<Rightarrow> Position \<Rightarrow> AllPieceType \<Rightarrow> Player \<Rightarrow> Position list" where
  "getRawMoves b fromPos pieceType ow =
     concat (map (\<lambda>pattern.
        let adjustedDir = adjustDirectionForPlayer (direction pattern) ow in
        if kind pattern = step then stepMove b ow adjustedDir fromPos
        else slideWalk b ow adjustedDir (col fromPos + dcol adjustedDir)
               (row fromPos + drow adjustedDir))
       (PIECE_MOVES pieceType))"

definition isDeadPosition :: "AllPieceType \<Rightarrow> Position \<Rightarrow> Player \<Rightarrow> bool" where
  "isDeadPosition pieceType to ow =
     (if ow = sente then
        (if pieceType = pawn \<or> pieceType = lance then row to = 1
         else if pieceType = knight then row to \<le> 2
         else False)
      else
        (if pieceType = pawn \<or> pieceType = lance then row to = 9
         else if pieceType = knight then row to \<ge> 8
         else False))"

definition canPromoteMove :: "Position \<Rightarrow> Position \<Rightarrow> Player \<Rightarrow> bool" where
  "canPromoteMove fromPos to ow =
     (if ow = sente then row fromPos \<le> 3 \<or> row to \<le> 3
      else row fromPos \<ge> 7 \<or> row to \<ge> 7)"

definition mustPromote :: "AllPieceType \<Rightarrow> Position \<Rightarrow> Player \<Rightarrow> bool" where
  "mustPromote pieceType to ow = isDeadPosition pieceType to ow"

section \<open>legalMoves.ts: check detection, move application, legality\<close>

text \<open>The index pairs of the nested loops \<open>for row = 0..8, for col = 0..8\<close>, row-major.\<close>

definition boardIndices :: "(nat \<times> nat) list" where
  "boardIndices = concat (map (\<lambda>r. map (\<lambda>c. (r, c)) [0..<9]) [0..<9])"

definition opponentOf :: "Player \<Rightarrow> Player" where
  "opponentOf player = (if player = sente then gote else sente)"

definition isKingOf :: "Player \<Rightarrow> Square \<Rightarrow> bool" where
  "isKingOf player sq =
     (case sq of None \<Rightarrow> False | Some piece \<Rightarrow> type piece = king \<and> owner piece = player)"

text \<open>The first king of the player in row-major order, as the early return finds it.\<close>

definition findKingPosition :: "Board \<Rightarrow> Player \<Rightarrow> Position option" where
  "findKingPosition b player =
     (case List.find (\<lambda>(r, c). isKingOf player (b ! r ! c)) boardIndices of
        None \<Rightarrow> None
      | Some (r, c) \<Rightarrow> Some (indexToPosition r c))"

definition isSquareAttacked :: "Board \<Rightarrow> Position \<Rightarrow> Player \<Rightarrow> bool" where
  "isSquareAttacked b targetPos byPlayer =
     list_ex (\<lambda>(r, c).
        case b ! r ! c of
          None \<Rightarrow> False
        | Some piece \<Rightarrow>
            owner piece = byPlayer \<and>
            list_ex (\<lambda>m. col m = col targetPos \<and> row m = row targetPos)
              (getRawMoves b (indexToPosition r c) (type piece) byPlayer))
       boardIndices"

definition isInCheck :: "Board \<Rightarrow> Player \<Rightarrow> bool" where
  "isInCheck b player =
     (case findKingPosition b player of
        None \<Rightarrow> False
      | Some kingPos \<Rightarrow> isSquareAttacked b kingPos (opponentOf player))"


text \<open>
  \<open>applyMove\<close> returns \<open>(newBoard, captured)\<close>. \<open>promotePiece\<close> is only called under
  \<open>canPromote\<close>, where it returns (lemma \<open>promotePiece_canPromote\<close> below), so its
  error branch is never taken here.
\<close>

definition applyMove :: "Board \<Rightarrow> MoveAction \<Rightarrow> Board \<times> Square" where
  "applyMove b move =
     (let newBoard = cloneBoard b in
      case positionToIndex (moveFrom move) of (fromRow, fromCol) \<Rightarrow>
      case positionToIndex (moveTo move) of (toRow, toCol) \<Rightarrow>
      let movingPiece = newBoard ! nat fromRow ! nat fromCol;
          capturedPiece = newBoard ! nat toRow ! nat toCol;
          cleared = setSquare newBoard (nat fromRow) (nat fromCol) None
      in (case movingPiece of
            None \<Rightarrow> cleared
          | Some mp \<Rightarrow>
              setSquare cleared (nat toRow) (nat toCol)
                (Some (if promote move \<and> canPromote (type mp) \<and> \<not> isPromotedPiece (type mp)
                       then (case promotePiece (type mp) of
                               Inr promoted \<Rightarrow> mp\<lparr>type := promoted, isPromoted := True\<rparr>
                             | Inl e \<Rightarrow> mp)
                       else mp)),
          capturedPiece))"

definition applyDrop :: "Board \<Rightarrow> DropAction \<Rightarrow> Player \<Rightarrow> Board" where
  "applyDrop b dropAct player =
     (case positionToIndex (dropTo dropAct) of (rowIndex, colIndex) \<Rightarrow>
        setSquare (cloneBoard b) (nat rowIndex) (nat colIndex)
          (Some \<lparr>type = ofHand (dropPiece dropAct), owner = player, isPromoted = False\<rparr>))"

definition isLegalMove :: "Board \<Rightarrow> MoveAction \<Rightarrow> Player \<Rightarrow> bool" where
  "isLegalMove b move player = (\<not> isInCheck (fst (applyMove b move)) player)"

text \<open>The double-pawn loop over the rows of one column index.\<close>

definition ownPawnOnFile :: "Board \<Rightarrow> nat \<Rightarrow> Player \<Rightarrow> bool" where
  "ownPawnOnFile b colIndex player =
     list_ex (\<lambda>r. case b ! r ! colIndex of
                None \<Rightarrow> False
              | Some piece \<Rightarrow> type piece = pawn \<and> owner piece = player \<and> \<not> isPromoted piece)
       [0..<9]"

definition isLegalDropForCheckEscape :: "Board \<Rightarrow> DropAction \<Rightarrow> Player \<Rightarrow> Hand \<Rightarrow> bool" where
  "isLegalDropForCheckEscape b dropAct player hand =
     (if hand (dropPiece dropAct) \<le> 0 then False
      else if getPieceAt b (dropTo dropAct) \<noteq> None then False
      else if isDeadPosition (ofHand (dropPiece dropAct)) (dropTo dropAct) player then False
      else if dropPiece dropAct = Pawn \<and>
              ownPawnOnFile b (nat (snd (positionToIndex (dropTo dropAct)))) player then False
      else \<not> isInCheck (applyDrop b dropAct player) player)"

definition handPieces :: "HandPieceType list" where
  "handPieces = [Rook, Bishop, Gold, Silver, Knight, Lance, Pawn]"

text \<open>The targets of the loops \<open>for row = 1..9, for col = 1..9\<close>.\<close>

definition dropSquares :: "Position list" where
  "dropSquares = concat (map (\<lambda>r. map (\<lambda>c. \<lparr>col = c, row = r\<rparr>) [1..9]) [1..9])"

text \<open>The escapes the first loop of \<open>isCheckmate\<close> tries from one square.\<close>

definition relocationEscapes :: "Board \<Rightarrow> Player \<Rightarrow> nat \<Rightarrow> nat \<Rightarrow> bool" where
  "relocationEscapes b player r c =
     (case b ! r ! c of
        None \<Rightarrow> False
      | Some piece \<Rightarrow>
          owner piece = player \<and>
          (let fromPos = indexToPosition r c in
           list_ex (\<lambda>to.
              isLegalMove b \<lparr>moveFrom = fromPos, moveTo = to, movePiece = type piece,
                             captured = None, promote = False\<rparr> player
              \<or> (canPromote (type piece) \<and> \<not> isPromotedPiece (type piece) \<and>
                  isLegalMove b \<lparr>moveFrom = fromPos, moveTo = to, movePiece = type piece,
                                 captured = None, promote = True\<rparr> player))
             (getRawMoves b fromPos (type piece) player)))"

definition isCheckmate :: "Board \<Rightarrow> Player \<Rightarrow> Hand option \<Rightarrow> bool" where
  "isCheckmate b player hand =
     (if \<not> isInCheck b player then False
      else if list_ex (\<lambda>(r, c). relocationEscapes b player r c) boardIndices then False
      else (case hand of
              None \<Rightarrow> True
            | Some h \<Rightarrow>
                \<not> list_ex (\<lambda>pieceType.
                     \<not> h pieceType \<le> 0 \<and>
                     list_ex (\<lambda>to. isLegalDropForCheckEscape b
                                      \<lparr>dropTo = to, dropPiece = pieceType\<rparr> player h)
                       dropSquares)
                   handPieces))"

definition isLegalDrop :: "Board \<Rightarrow> DropAction \<Rightarrow> Player \<Rightarrow> Hand \<Rightarrow> bool" where
  "isLegalDrop b dropAct player hand =
     (if hand (dropPiece dropAct) \<le> 0 then False
      else if getPieceAt b (dropTo dropAct) \<noteq> None then False
      else if isDeadPosition (ofHand (dropPiece dropAct)) (dropTo dropAct) player then False
      else if dropPiece dropAct = Pawn \<and>
              ownPawnOnFile b (nat (snd (positionToIndex (dropTo dropAct)))) player then False
      else if dropPiece dropAct = Pawn \<and>
              isCheckmate (applyDrop b dropAct player) (opponentOf player) None then False
      else \<not> isInCheck (applyDrop b dropAct player) player)"

text \<open>The moves one iteration of the loop of \<open>getLegalMovesForPiece\<close> pushes.\<close>

definition movesToTarget :: "Board \<Rightarrow> Position \<Rightarrow> Piece \<Rightarrow> Player \<Rightarrow> Position \<Rightarrow> MoveAction list" where
  "movesToTarget b fromPos piece player to =
     (let capturedType = map_option type (getPieceAt b to);
          canProm = (canPromote (type piece) \<and> \<not> isPromotedPiece (type piece) \<and>
                     canPromoteMove fromPos to player);
          mustProm = mustPromote (type piece) to player;
          promoteMove = \<lparr>moveFrom = fromPos, moveTo = to, movePiece = type piece,
                         captured = capturedType, promote = True\<rparr>;
          noPromoteMove = \<lparr>moveFrom = fromPos, moveTo = to, movePiece = type piece,
                           captured = capturedType, promote = False\<rparr>
      in if canProm then
           (if isLegalMove b promoteMove player then [promoteMove] else []) @
           (if \<not> mustProm then
              (if isLegalMove b noPromoteMove player then [noPromoteMove] else [])
            else [])
         else (if isLegalMove b noPromoteMove player then [noPromoteMove] else []))"

definition getLegalMovesForPiece :: "Board \<Rightarrow> Position \<Rightarrow> Player \<Rightarrow> MoveAction list" where
  "getLegalMovesForPiece b fromPos player =
     (case getPieceAt b fromPos of
        None \<Rightarrow> []
      | Some piece \<Rightarrow>
          if owner piece \<noteq> player then []
          else concat (map (movesToTarget b fromPos piece player)
                         (getRawMoves b fromPos (type piece) player)))"

definition getLegalDrops :: "Board \<Rightarrow> Player \<Rightarrow> Hand \<Rightarrow> DropAction list" where
  "getLegalDrops b player hand =
     concat (map (\<lambda>pieceType.
        if hand pieceType \<le> 0 then []
        else filter (\<lambda>dropAct. isLegalDrop b dropAct player hand)
               (map (\<lambda>to. \<lparr>dropTo = to, dropPiece = pieceType\<rparr>) dropSquares))
       handPieces)"

definition getAllLegalMoves :: "GameState \<Rightarrow> Move list" where
  "getAllLegalMoves state =
     concat (map (\<lambda>(r, c).
        case board state ! r ! c of
          None \<Rightarrow> []
        | Some piece \<Rightarrow>
            if owner piece = currentPlayer state
            then map MoveOf (getLegalMovesForPiece (board state) (indexToPosition r c)
                               (currentPlayer state))
            else [])
       boardIndices)
     @ map DropOf (getLegalDrops (board state) (currentPlayer state)
                     (hands state (currentPlayer state)))"

definition isStalemate :: "GameState \<Rightarrow> bool" where
  "isStalemate state =
     (if isInCheck (board state) (currentPlayer state) then False
      else getAllLegalMoves state = [])"


section \<open>gameRules.ts: position encoding, repetition, game result\<close>

text \<open>\<open>Number.prototype.toString\<close> on an integer: decimal digits, \<open>-\<close> when negative.\<close>

definition digitChar :: "nat \<Rightarrow> char" where
  "digitChar n = ''0123456789'' ! n"

function natToString :: "nat \<Rightarrow> string" where
  "natToString n =
     (if n < 10 then [digitChar n] else natToString (n div 10) @ [digitChar (n mod 10)])"
  by pat_completeness auto
termination
  by (relation "measure (\<lambda>n. n)") auto

declare natToString.simps [simp del]

definition numberToString :: "int \<Rightarrow> string" where
  "numberToString i = (if i < 0 then CHR ''-'' # natToString (nat (- i)) else natToString (nat i))"

text \<open>\<open>toLowerCase\<close> on the ASCII strings of the piece table.\<close>

definition lowerChar :: "char \<Rightarrow> char" where
  "lowerChar c =
     (let n = (of_char c :: nat) in if 65 \<le> n \<and> n \<le> 90 then char_of (n + 32) else c)"

definition toLowerCase :: "string \<Rightarrow> string" where
  "toLowerCase str = map lowerChar str"

fun pieceMap :: "AllPieceType \<Rightarrow> string" where
  "pieceMap king = ''K''"
| "pieceMap rook = ''R''"
| "pieceMap bishop = ''B''"
| "pieceMap gold = ''G''"
| "pieceMap silver = ''S''"
| "pieceMap knight = ''N''"
| "pieceMap lance = ''L''"
| "pieceMap pawn = ''P''"
| "pieceMap promotedRook = ''+R''"
| "pieceMap promotedBishop = ''+B''"
| "pieceMap promotedSilver = ''+S''"
| "pieceMap promotedKnight = ''+N''"
| "pieceMap promotedLance = ''+L''"
| "pieceMap promotedPawn = ''+P''"

definition pieceToSfen :: "Piece \<Rightarrow> string" where
  "pieceToSfen piece =
     (let sfenChar = pieceMap (type piece)
      in if owner piece = sente then sfenChar else toLowerCase sfenChar)"

text \<open>One step of the inner loop of \<open>boardToSfen\<close> on the pair \<open>(rowStr, emptyCount)\<close>.\<close>

definition sfenSquare :: "string \<times> int \<Rightarrow> Square \<Rightarrow> string \<times> int" where
  "sfenSquare acc sq =
     (case acc of (rowStr, emptyCount) \<Rightarrow>
      case sq of
        None \<Rightarrow> (rowStr, emptyCount + 1)
      | Some piece \<Rightarrow>
          ((if emptyCount > 0 then rowStr @ numberToString emptyCount else rowStr)
             @ pieceToSfen piece, 0))"

definition rowToSfen :: "Board \<Rightarrow> nat \<Rightarrow> string" where
  "rowToSfen b r =
     (case foldl (\<lambda>acc c. sfenSquare acc (b ! r ! c)) ([], 0) [0..<9] of
        (rowStr, emptyCount) \<Rightarrow>
          if emptyCount > 0 then rowStr @ numberToString emptyCount else rowStr)"

fun joinWith :: "string \<Rightarrow> string list \<Rightarrow> string" where
  "joinWith sep [] = []"
| "joinWith sep [x] = x"
| "joinWith sep (x # y # ys) = x @ sep @ joinWith sep (y # ys)"

definition boardToSfen :: "Board \<Rightarrow> string" where
  "boardToSfen b = joinWith ''/'' (map (rowToSfen b) [0..<9])"

fun sfenMap :: "HandPieceType \<Rightarrow> string" where
  "sfenMap Rook = ''R''"
| "sfenMap Bishop = ''B''"
| "sfenMap Gold = ''G''"
| "sfenMap Silver = ''S''"
| "sfenMap Knight = ''N''"
| "sfenMap Lance = ''L''"
| "sfenMap Pawn = ''P''"

text \<open>What one iteration of a loop of \<open>handsToSfen\<close> appends for a count and a letter.\<close>

definition handEntry :: "int \<Rightarrow> string \<Rightarrow> string" where
  "handEntry count letter =
     (if count > 0 then (if count > 1 then numberToString count else []) @ letter else [])"

definition handsToSfen :: "(Player \<Rightarrow> Hand) \<Rightarrow> string" where
  "handsToSfen hs =
     (let res = concat (map (\<lambda>piece. handEntry (hs sente piece) (sfenMap piece)) handPieces)
                @ concat (map (\<lambda>piece. handEntry (hs gote piece) (toLowerCase (sfenMap piece)))
                            handPieces)
      in if res = [] then ''-'' else res)"

definition gameStateToSfen :: "GameState \<Rightarrow> string" where
  "gameStateToSfen state =
     (let boardSfen = boardToSfen (board state);
          turn = (if currentPlayer state = sente then ''b'' else ''w'');
          handsSfen = handsToSfen (hands state)
      in boardSfen @ '' '' @ turn @ '' '' @ handsSfen)"

definition countPositionRepetitions :: "string list \<Rightarrow> string \<Rightarrow> nat" where
  "countPositionRepetitions history currentPosition =
     foldl (\<lambda>count pos. if pos = currentPosition then count + 1 else count) 0 history + 1"

definition isRepetition :: "GameState \<Rightarrow> bool" where
  "isRepetition state =
     (countPositionRepetitions (positionHistory state) (gameStateToSfen state) \<ge> 4)"

text \<open>\<open>isPerpeturalCheck\<close> returns \<open>(isPerpetual, loser)\<close>, the loser being optional.\<close>

definition isPerpeturalCheck :: "GameState \<Rightarrow> bool \<times> Player option" where
  "isPerpeturalCheck state =
     (let currentSfen = gameStateToSfen state;
          opponent = opponentOf (currentPlayer state);
          isOpponentChecking = isInCheck (board state) (currentPlayer state)
      in if \<not> isOpponentChecking then (False, None)
         else
           (let checkCount = foldl (\<lambda>n pos. if pos = currentSfen then n + 1 else n) (0::nat)
                               (positionHistory state)
            in if checkCount \<ge> 3 then (True, Some opponent) else (False, None)))"

definition checkGameResult :: "GameState \<Rightarrow> GameResult" where
  "checkGameResult state =
     (let opponent = opponentOf (currentPlayer state) in
      if isCheckmate (board state) (currentPlayer state) None then checkmate opponent
      else if isStalemate state then stalemate opponent
      else
        (case isPerpeturalCheck state of
           (True, Some loser) \<Rightarrow> repetition (wonBy (opponentOf loser))
         | _ \<Rightarrow> if isRepetition state then repetition draw else ongoing))"

definition determineGamePhase :: "int \<Rightarrow> GamePhase" where
  "determineGamePhase n =
     (if n < 30 then openingPhase else if n < 80 then middlegamePhase else endgamePhase)"

section \<open>App.tsx: the state a relocation produces\<close>

text \<open>
  \<open>createInitialState\<close> and the state update of \<open>executeMoveWithPromotion\<close>; the
  selection, animation and sound effects around it are left out. An empty origin
  square leaves the state as it is; \<open>toHandPieceType\<close> throws on a captured king.
\<close>

definition createInitialState :: GameState where
  "createInitialState =
     createInitialGameState\<lparr>positionHistory := [gameStateToSfen createInitialGameState]\<rparr>"

definition handsAfterCapture ::
  "(Player \<Rightarrow> Hand) \<Rightarrow> Player \<Rightarrow> Square \<Rightarrow> error + (Player \<Rightarrow> Hand)" where
  "handsAfterCapture hs player capturedPiece =
     (case capturedPiece of
        None \<Rightarrow> Inr hs
      | Some cp \<Rightarrow>
          (case toHandPieceType (type cp) of
             Inl e \<Rightarrow> Inl e
           | Inr handPieceType \<Rightarrow> Inr (hs(player := addToHand (hs player) handPieceType))))"

definition executeMoveWithPromotion ::
  "GameState \<Rightarrow> Position \<Rightarrow> Position \<Rightarrow> bool \<Rightarrow> error + GameState" where
  "executeMoveWithPromotion gameState fromPos to prom =
     (case getPieceAt (board gameState) fromPos of
        None \<Rightarrow> Inr gameState
      | Some piece \<Rightarrow>
          (let targetPiece = getPieceAt (board gameState) to;
               moveAction = \<lparr>moveFrom = fromPos, moveTo = to, movePiece = type piece,
                              captured = map_option type targetPiece, promote = prom\<rparr>
           in case applyMove (board gameState) moveAction of (newBoard, capturedPiece) \<Rightarrow>
              case handsAfterCapture (hands gameState) (currentPlayer gameState) capturedPiece of
                Inl e \<Rightarrow> Inl e
              | Inr newHands \<Rightarrow>
                  (let nextPlayer = opponentOf (currentPlayer gameState);
                       newState = gameState
                         \<lparr>board := newBoard,
                          hands := newHands,
                          currentPlayer := nextPlayer,
                          moveHistory := moveHistory gameState @ [MoveOf moveAction],
                          moveCount := moveCount gameState + 1,
                          gamePhase := determineGamePhase (moveCount gameState + 1),
                          isCheck := isInCheck newBoard nextPlayer\<rparr>;
                       newSfen = gameStateToSfen newState;
                       recorded = newState
                         \<lparr>positionHistory := positionHistory gameState @ [newSfen]\<rparr>
                   in Inr (recorded\<lparr>result := checkGameResult recorded\<rparr>))))"

section \<open>The search engines: evaluation.ts, intermediate.ts, multiStageEngine.ts\<close>

text \<open>
  Scores are JavaScript numbers, IEEE doubles. They are modelled as exact reals, and the
  bounds of the search window can be \<open>-Infinity\<close> and \<open>Infinity\<close>. The scores of
  \<open>quickEvaluate\<close> are sums of integers and the same in both. Those of
  \<open>evaluateBoardAdvanced\<close> go through the factors 0.1 and 0.3, which doubles round: the
  code's value can differ from the real one in the last digits (on the opening position
  the real value is 0 and the double is about -3.4e-13). The properties below treat that
  score as an unknown number and do not depend on its value.
\<close>

datatype number = NegInfinity | Num real | Infinity

instantiation number :: linorder
begin

fun less_eq_number :: "number \<Rightarrow> number \<Rightarrow> bool" where
  "less_eq_number NegInfinity _ = True"
| "less_eq_number _ Infinity = True"
| "less_eq_number (Num a) (Num b) = (a \<le> b)"
| "less_eq_number _ _ = False"

definition less_number :: "number \<Rightarrow> number \<Rightarrow> bool" where
  "less_number x y = (x \<le> y \<and> \<not> y \<le> x)"

instance
proof
  fix x y z :: number
  show "(x < y) = (x \<le> y \<and> \<not> y \<le> x)" by (simp add: less_number_def)
  show "x \<le> x" by (cases x) simp_all
  show "x \<le> y \<Longrightarrow> y \<le> z \<Longrightarrow> x \<le> z" by (cases x; cases y; cases z) simp_all
  show "x \<le> y \<Longrightarrow> y \<le> x \<Longrightarrow> x = y" by (cases x; cases y) simp_all
  show "x \<le> y \<or> y \<le> x" by (cases x; cases y) auto
qed

end

fun PIECE_VALUES :: "AllPieceType \<Rightarrow> real" where
  "PIECE_VALUES king = 0"
| "PIECE_VALUES rook = 1000"
| "PIECE_VALUES bishop = 900"
| "PIECE_VALUES gold = 500"
| "PIECE_VALUES silver = 450"
| "PIECE_VALUES knight = 350"
| "PIECE_VALUES lance = 300"
| "PIECE_VALUES pawn = 100"
| "PIECE_VALUES promotedRook = 1300"
| "PIECE_VALUES promotedBishop = 1200"
| "PIECE_VALUES promotedSilver = 500"
| "PIECE_VALUES promotedKnight = 500"
| "PIECE_VALUES promotedLance = 500"
| "PIECE_VALUES promotedPawn = 600"

text \<open>\<open>HAND_PIECE_VALUES\<close> of evaluation.ts.\<close>

fun HAND_PIECE_VALUES :: "HandPieceType \<Rightarrow> real" where
  "HAND_PIECE_VALUES Rook = 1200"
| "HAND_PIECE_VALUES Bishop = 1100"
| "HAND_PIECE_VALUES Gold = 550"
| "HAND_PIECE_VALUES Silver = 500"
| "HAND_PIECE_VALUES Knight = 400"
| "HAND_PIECE_VALUES Lance = 350"
| "HAND_PIECE_VALUES Pawn = 150"

text \<open>\<open>HAND_PIECE_VALUES\<close> of intermediate.ts.\<close>

fun HAND_PIECE_VALUES_intermediate :: "HandPieceType \<Rightarrow> real" where
  "HAND_PIECE_VALUES_intermediate Rook = 1200"
| "HAND_PIECE_VALUES_intermediate Bishop = 1100"
| "HAND_PIECE_VALUES_intermediate Gold = 550"
| "HAND_PIECE_VALUES_intermediate Silver = 500"
| "HAND_PIECE_VALUES_intermediate Knight = 350"
| "HAND_PIECE_VALUES_intermediate Lance = 300"
| "HAND_PIECE_VALUES_intermediate Pawn = 120"

definition quickEvaluate :: "GameState \<Rightarrow> real" where
  "quickEvaluate state =
     (let onBoard = foldl (\<lambda>score (r, c).
            case board state ! r ! c of
              None \<Rightarrow> score
            | Some piece \<Rightarrow>
                (let v = PIECE_VALUES (type piece)
                 in score + (if owner piece = sente then v else - v)))
          0 boardIndices
      in foldl (\<lambda>score t.
            score + of_int (hands state sente t) * HAND_PIECE_VALUES t
                  - of_int (hands state gote t) * HAND_PIECE_VALUES t)
          onBoard handPieces)"

definition getCentralControlBonus :: "int \<Rightarrow> int \<Rightarrow> real" where
  "getCentralControlBonus c r =
     (let colDist = \<bar>c - 4\<bar>; rowDist = \<bar>r - 4\<bar>
      in max 0 (20 - of_int (colDist + rowDist) * 3))"

text \<open>
  \<open>getKingSafetyScore\<close>: the two loops with \<open>break\<close> stop at the first king of the
  player in row-major order.
\<close>

definition getKingSafetyScore :: "Board \<Rightarrow> Player \<Rightarrow> real" where
  "getKingSafetyScore b player =
     (case List.find (\<lambda>(r, c). isKingOf player (b ! r ! c)) boardIndices of
        None \<Rightarrow> - 10000
      | Some (kingRow, kingCol) \<Rightarrow>
          (let zone = (if player = sente
                       then (if kingRow \<ge> 6 then 50 else if kingRow \<ge> 4 then 0 else - 30)
                       else (if kingRow \<le> 2 then 50 else if kingRow \<le> 4 then 0 else - 30));
               neighbours = concat (map (\<lambda>dr. map (\<lambda>dc. (dr, dc)) [- 1, 0, 1]) [- 1, 0, (1::int)])
           in foldl (\<lambda>score (dr, dc).
                if dr = 0 \<and> dc = (0::int) then score
                else
                  (let nr = int kingRow + dr; nc = int kingCol + dc
                   in if nr \<ge> 0 \<and> nr < 9 \<and> nc \<ge> 0 \<and> nc < 9 then
                        (case b ! nat nr ! nat nc of
                           None \<Rightarrow> score
                         | Some piece \<Rightarrow> if owner piece = player then score + 10 else score)
                      else score))
              zone neighbours))"

definition evaluateBoardAdvanced :: "GameState \<Rightarrow> real" where
  "evaluateBoardAdvanced state =
     (let b = board state;
          onBoard = foldl (\<lambda>score (r, c).
            case b ! r ! c of
              None \<Rightarrow> score
            | Some piece \<Rightarrow>
                (let pieceValue = PIECE_VALUES (type piece);
                     multiplier = (if owner piece = sente then 1 else - 1);
                     score1 = score + pieceValue * multiplier
                 in if type piece \<noteq> king
                    then score1 + getCentralControlBonus (int c) (int r) * multiplier * 0.3
                    else score1))
            0 boardIndices;
          withSente = foldl (\<lambda>score t.
            if hands state sente t > 0
            then score + HAND_PIECE_VALUES_intermediate t * of_int (hands state sente t)
            else score) onBoard handPieces;
          withGote = foldl (\<lambda>score t.
            if hands state gote t > 0
            then score - HAND_PIECE_VALUES_intermediate t * of_int (hands state gote t)
            else score) withSente handPieces;
          safety = withGote + getKingSafetyScore b sente - getKingSafetyScore b gote;
          check1 = (if isInCheck b sente then safety - 150 else safety)
      in if isInCheck b gote then check1 + 150 else check1)"

text \<open>
  \<open>applyMoveToState\<close> (the same function in intermediate.ts and multiStageEngine.ts):
  \<open>toHandPieceType\<close> throws on a captured king, \<open>removeFromHand\<close> on an empty reserve.
\<close>

definition applyMoveToState :: "GameState \<Rightarrow> Move \<Rightarrow> error + GameState" where
  "applyMoveToState state mv =
     (let nextPlayer = opponentOf (currentPlayer state) in
      case mv of
        MoveOf moveAction \<Rightarrow>
          (case applyMove (board state) moveAction of (newBoard, capturedPiece) \<Rightarrow>
           case handsAfterCapture (hands state) (currentPlayer state) capturedPiece of
             Inl e \<Rightarrow> Inl e
           | Inr newHands \<Rightarrow>
               Inr (state\<lparr>board := newBoard, hands := newHands, currentPlayer := nextPlayer,
                          moveCount := moveCount state + 1\<rparr>))
      | DropOf dropAction \<Rightarrow>
          (let newBoard = applyDrop (board state) dropAction (currentPlayer state) in
           case removeFromHand (hands state (currentPlayer state)) (dropPiece dropAction) of
             Inl e \<Rightarrow> Inl e
           | Inr newHand \<Rightarrow>
               Inr (state\<lparr>board := newBoard,
                          hands := (hands state)(currentPlayer state := newHand),
                          currentPlayer := nextPlayer,
                          moveCount := moveCount state + 1\<rparr>)))"

text \<open>
  The result of a search, \<open>{score, move, nodesSearched}\<close>. The shared counter object
  \<open>nodesSearched\<close> is passed in as a number and returned updated.
\<close>

record SearchResult =
  score :: number
  bestMove :: "Move option"
  nodesSearched :: nat

definition isCaptureMove :: "Move \<Rightarrow> bool" where
  "isCaptureMove m = (case m of MoveOf a \<Rightarrow> captured a \<noteq> None | DropOf d \<Rightarrow> False)"

text \<open>The value the comparator of the quiescence sort gives a move.\<close>

definition captureOrderValue :: "Move \<Rightarrow> real" where
  "captureOrderValue m =
     (case m of
        MoveOf a \<Rightarrow>
          (case captured a of
             Some c \<Rightarrow> PIECE_VALUES c - PIECE_VALUES (movePiece a) * 0.1
           | None \<Rightarrow> 0)
      | DropOf d \<Rightarrow> 0)"

definition MAX_QUIESCENCE_DEPTH :: nat where
  "MAX_QUIESCENCE_DEPTH = 6"

definition DELTA_MARGIN :: real where
  "DELTA_MARGIN = 200"

text \<open>Whether the loop of \<open>quiescenceSearch\<close> skips a capture (delta pruning).\<close>

definition deltaPruned :: "Move \<Rightarrow> real \<Rightarrow> number \<Rightarrow> number \<Rightarrow> bool \<Rightarrow> bool" where
  "deltaPruned m standPat alpha beta maximizing =
     (case m of
        MoveOf a \<Rightarrow>
          (case captured a of
             Some c \<Rightarrow>
               (let captureValue = PIECE_VALUES c in
                (maximizing \<and> Num (standPat + captureValue + DELTA_MARGIN) < alpha) \<or>
                (\<not> maximizing \<and> Num (standPat - captureValue - DELTA_MARGIN) > beta))
           | None \<Rightarrow> False)
      | DropOf d \<Rightarrow> False)"

text \<open>
  \<open>quiescenceSearch\<close> returns \<open>(score, count)\<close>; \<open>quiescenceLoop\<close> is its \<open>for\<close> loop over
  the sorted captures, from the current \<open>alpha\<close> and \<open>beta\<close>.
\<close>

function quiescenceSearch ::
    "GameState \<Rightarrow> number \<Rightarrow> number \<Rightarrow> bool \<Rightarrow> nat \<Rightarrow> nat \<Rightarrow> error + (number \<times> nat)"
  and quiescenceLoop ::
    "GameState \<Rightarrow> real \<Rightarrow> Move list \<Rightarrow> number \<Rightarrow> number \<Rightarrow> bool \<Rightarrow> nat \<Rightarrow> nat
       \<Rightarrow> error + (number \<times> nat)"
  where
  "quiescenceSearch state alpha beta maximizing count depth =
     (let count1 = count + 1 in
      if depth \<ge> MAX_QUIESCENCE_DEPTH then Inr (Num (quickEvaluate state), count1)
      else
        (let standPat = quickEvaluate state in
         if maximizing \<and> Num standPat \<ge> beta then Inr (beta, count1)
         else if \<not> maximizing \<and> Num standPat \<le> alpha then Inr (alpha, count1)
         else
           (let alpha1 = (if maximizing \<and> Num standPat > alpha then Num standPat else alpha);
                beta1 = (if \<not> maximizing \<and> Num standPat < beta then Num standPat else beta);
                allMoves = getAllLegalMoves state;
                captureMoves = filter isCaptureMove allMoves
            in if captureMoves = [] then Inr (Num standPat, count1)
               else quiescenceLoop state standPat
                      (sort_key (\<lambda>m. - captureOrderValue m) captureMoves)
                      alpha1 beta1 maximizing count1 depth)))"
| "quiescenceLoop state standPat [] alpha beta maximizing count depth =
     Inr (if maximizing then alpha else beta, count)"
| "quiescenceLoop state standPat (m # ms) alpha beta maximizing count depth =
     (if deltaPruned m standPat alpha beta maximizing
      then quiescenceLoop state standPat ms alpha beta maximizing count depth
      else
        (case applyMoveToState state m of
           Inl e \<Rightarrow> Inl e
         | Inr newState \<Rightarrow>
             (case quiescenceSearch newState alpha beta (\<not> maximizing) count (depth + 1) of
                Inl e \<Rightarrow> Inl e
              | Inr (sc, count') \<Rightarrow>
                  if maximizing then
                    (let alpha' = (if sc > alpha then sc else alpha) in
                     if alpha' \<ge> beta then Inr (alpha', count')
                     else quiescenceLoop state standPat ms alpha' beta maximizing count' depth)
                  else
                    (let beta' = (if sc < beta then sc else beta) in
                     if alpha \<ge> beta' then Inr (beta', count')
                     else quiescenceLoop state standPat ms alpha beta' maximizing count' depth))))"
  by pat_completeness auto
termination
  by (relation "measures
        [\<lambda>x. case x of
               Inl (state, alpha, beta, maximizing, count, depth) \<Rightarrow> 2 * (6 - depth)
             | Inr (state, standPat, ms, alpha, beta, maximizing, count, depth) \<Rightarrow>
                 2 * (6 - depth) - 1,
         \<lambda>x. case x of
               Inl (state, alpha, beta, maximizing, count, depth) \<Rightarrow> 0
             | Inr (state, standPat, ms, alpha, beta, maximizing, count, depth) \<Rightarrow> length ms]")
     (auto simp: MAX_QUIESCENCE_DEPTH_def)

declare quiescenceSearch.simps [simp del]

text \<open>The score the comparator of \<open>minimax\<close> (multiStageEngine.ts) gives a move.\<close>

definition moveOrderScore :: "Move \<Rightarrow> real" where
  "moveOrderScore m =
     (case m of
        MoveOf a \<Rightarrow>
          (case captured a of
             Some c \<Rightarrow> PIECE_VALUES c * 10 - PIECE_VALUES (movePiece a)
           | None \<Rightarrow> 0)
          + (if promote a then 300 else 0)
      | DropOf d \<Rightarrow> 0)"

text \<open>
  \<open>minimax\<close> of multiStageEngine.ts. \<open>minimaxMaxLoop\<close> and \<open>minimaxMinLoop\<close> are its two
  \<open>for\<close> loops over the sorted moves, carrying \<open>alpha\<close>, \<open>beta\<close>, the best score and the
  best move so far; \<open>depth\<close> is the depth of the node whose moves they try.
\<close>

function minimax_multiStage ::
    "GameState \<Rightarrow> nat \<Rightarrow> number \<Rightarrow> number \<Rightarrow> bool \<Rightarrow> nat \<Rightarrow> error + SearchResult"
  and minimaxMaxLoop ::
    "GameState \<Rightarrow> nat \<Rightarrow> Move list \<Rightarrow> number \<Rightarrow> number \<Rightarrow> number \<Rightarrow> Move option \<Rightarrow> nat
       \<Rightarrow> error + SearchResult"
  and minimaxMinLoop ::
    "GameState \<Rightarrow> nat \<Rightarrow> Move list \<Rightarrow> number \<Rightarrow> number \<Rightarrow> number \<Rightarrow> Move option \<Rightarrow> nat
       \<Rightarrow> error + SearchResult"
  where
  "minimax_multiStage state depth alpha beta maximizing count =
     (let count1 = count + 1 in
      if depth = 0 then
        (case quiescenceSearch state alpha beta maximizing count1 0 of
           Inl e \<Rightarrow> Inl e
         | Inr (sc, count2) \<Rightarrow> Inr \<lparr>score = sc, bestMove = None, nodesSearched = count2\<rparr>)
      else
        (let moves = getAllLegalMoves state in
         if moves = [] then
           (if isInCheck (board state) (currentPlayer state)
            then Inr \<lparr>score = (if maximizing
                                then Num (- 100000 + (5 - real depth) * 1000)
                                else Num (100000 - (5 - real depth) * 1000)),
                       bestMove = None, nodesSearched = count1\<rparr>
            else Inr \<lparr>score = Num 0, bestMove = None, nodesSearched = count1\<rparr>)
         else
           (let sortedMoves = sort_key (\<lambda>m. - moveOrderScore m) moves in
            if maximizing
            then minimaxMaxLoop state depth sortedMoves alpha beta NegInfinity None count1
            else minimaxMinLoop state depth sortedMoves alpha beta Infinity None count1)))"
| "minimaxMaxLoop state depth [] alpha beta maxScore best count =
     Inr \<lparr>score = maxScore, bestMove = best, nodesSearched = count\<rparr>"
| "minimaxMaxLoop state depth (m # ms) alpha beta maxScore best count =
     (case applyMoveToState state m of
        Inl e \<Rightarrow> Inl e
      | Inr newState \<Rightarrow>
          (case minimax_multiStage newState (depth - 1) alpha beta False count of
             Inl e \<Rightarrow> Inl e
           | Inr res \<Rightarrow>
               (let maxScore' = (if score res > maxScore then score res else maxScore);
                    best' = (if score res > maxScore then Some m else best);
                    alpha' = max alpha (score res)
                in if beta \<le> alpha'
                   then Inr \<lparr>score = maxScore', bestMove = best',
                              nodesSearched = nodesSearched res\<rparr>
                   else minimaxMaxLoop state depth ms alpha' beta maxScore' best'
                          (nodesSearched res))))"
| "minimaxMinLoop state depth [] alpha beta minScore best count =
     Inr \<lparr>score = minScore, bestMove = best, nodesSearched = count\<rparr>"
| "minimaxMinLoop state depth (m # ms) alpha beta minScore best count =
     (case applyMoveToState state m of
        Inl e \<Rightarrow> Inl e
      | Inr newState \<Rightarrow>
          (case minimax_multiStage newState (depth - 1) alpha beta True count of
             Inl e \<Rightarrow> Inl e
           | Inr res \<Rightarrow>
               (let minScore' = (if score res < minScore then score res else minScore);
                    best' = (if score res < minScore then Some m else best);
                    beta' = min beta (score res)
                in if beta' \<le> alpha
                   then Inr \<lparr>score = minScore', bestMove = best',
                              nodesSearched = nodesSearched res\<rparr>
                   else minimaxMinLoop state depth ms alpha beta' minScore' best'
                          (nodesSearched res))))"
  by pat_completeness auto
termination
  by (relation "measures
        [\<lambda>x. case x of
               Inl (state, depth, alpha, beta, maximizing, count) \<Rightarrow> 2 * depth
             | Inr (Inl (state, depth, ms, alpha, beta, maxScore, best, count)) \<Rightarrow> 2 * depth - 1
             | Inr (Inr (state, depth, ms, alpha, beta, minScore, best, count)) \<Rightarrow> 2 * depth - 1,
         \<lambda>x. case x of
               Inl (state, depth, alpha, beta, maximizing, count) \<Rightarrow> 0
             | Inr (Inl (state, depth, ms, alpha, beta, maxScore, best, count)) \<Rightarrow> length ms
             | Inr (Inr (state, depth, ms, alpha, beta, minScore, best, count)) \<Rightarrow> length ms]")
     auto

declare minimax_multiStage.simps [simp del]

text \<open>
  The searches multiStageEngine.ts runs: \<open>minimax\<close> at depth 2 (selectIntermediateMove),
  3 (selectAdvancedMove) and 4 (the third stage), on the full window with a fresh counter.
\<close>

definition multiStageSearch :: "nat \<Rightarrow> GameState \<Rightarrow> error + SearchResult" where
  "multiStageSearch depth state =
     minimax_multiStage state depth NegInfinity Infinity (currentPlayer state = sente) 0"

text \<open>The capture value the comparator of \<open>minimax\<close> (intermediate.ts) sorts by.\<close>

definition captureValueOf :: "Move \<Rightarrow> real" where
  "captureValueOf m =
     (case m of
        MoveOf a \<Rightarrow> (case captured a of Some c \<Rightarrow> PIECE_VALUES c | None \<Rightarrow> 0)
      | DropOf d \<Rightarrow> 0)"

text \<open>\<open>minimax\<close> of intermediate.ts, with its two loops.\<close>

function minimax_intermediate ::
    "GameState \<Rightarrow> nat \<Rightarrow> number \<Rightarrow> number \<Rightarrow> bool \<Rightarrow> nat \<Rightarrow> error + SearchResult"
  and intermediateMaxLoop ::
    "GameState \<Rightarrow> nat \<Rightarrow> Move list \<Rightarrow> number \<Rightarrow> number \<Rightarrow> number \<Rightarrow> Move option \<Rightarrow> nat
       \<Rightarrow> error + SearchResult"
  and intermediateMinLoop ::
    "GameState \<Rightarrow> nat \<Rightarrow> Move list \<Rightarrow> number \<Rightarrow> number \<Rightarrow> number \<Rightarrow> Move option \<Rightarrow> nat
       \<Rightarrow> error + SearchResult"
  where
  "minimax_intermediate state depth alpha beta maximizing count =
     (let count1 = count + 1 in
      if depth = 0 then
        Inr \<lparr>score = Num (evaluateBoardAdvanced state), bestMove = None,
             nodesSearched = count1\<rparr>
      else
        (let moves = getAllLegalMoves state in
         if moves = [] then
           (if isInCheck (board state) (currentPlayer state)
            then Inr \<lparr>score = (if maximizing
                                then Num (- 100000 + (3 - real depth) * 1000)
                                else Num (100000 - (3 - real depth) * 1000)),
                       bestMove = None, nodesSearched = count1\<rparr>
            else Inr \<lparr>score = Num 0, bestMove = None, nodesSearched = count1\<rparr>)
         else
           (let sortedMoves = sort_key (\<lambda>m. - captureValueOf m) moves in
            if maximizing
            then intermediateMaxLoop state depth sortedMoves alpha beta NegInfinity None count1
            else intermediateMinLoop state depth sortedMoves alpha beta Infinity None count1)))"
| "intermediateMaxLoop state depth [] alpha beta maxScore best count =
     Inr \<lparr>score = maxScore, bestMove = best, nodesSearched = count\<rparr>"
| "intermediateMaxLoop state depth (m # ms) alpha beta maxScore best count =
     (case applyMoveToState state m of
        Inl e \<Rightarrow> Inl e
      | Inr newState \<Rightarrow>
          (case minimax_intermediate newState (depth - 1) alpha beta False count of
             Inl e \<Rightarrow> Inl e
           | Inr res \<Rightarrow>
               (let maxScore' = (if score res > maxScore then score res else maxScore);
                    best' = (if score res > maxScore then Some m else best);
                    alpha' = max alpha (score res)
                in if beta \<le> alpha'
                   then Inr \<lparr>score = maxScore', bestMove = best',
                              nodesSearched = nodesSearched res\<rparr>
                   else intermediateMaxLoop state depth ms alpha' beta maxScore' best'
                          (nodesSearched res))))"
| "intermediateMinLoop state depth [] alpha beta minScore best count =
     Inr \<lparr>score = minScore, bestMove = best, nodesSearched = count\<rparr>"
| "intermediateMinLoop state depth (m # ms) alpha beta minScore best count =
     (case applyMoveToState state m of
        Inl e \<Rightarrow> Inl e
      | Inr newState \<Rightarrow>
          (case minimax_intermediate newState (depth - 1) alpha beta True count of
             Inl e \<Rightarrow> Inl e
           | Inr res \<Rightarrow>
               (let minScore' = (if score res < minScore then score res else minScore);
                    best' = (if score res < minScore then Some m else best);
                    beta' = min beta (score res)
                in if beta' \<le> alpha
                   then Inr \<lparr>score = minScore', bestMove = best',
                              nodesSearched = nodesSearched res\<rparr>
                   else intermediateMinLoop state depth ms alpha beta' minScore' best'
                          (nodesSearched res))))"
  by pat_completeness auto
termination
  by (relation "measures
        [\<lambda>x. case x of
               Inl (state, depth, alpha, beta, maximizing, count) \<Rightarrow> 2 * depth
             | Inr (Inl (state, depth, ms, alpha, beta, maxScore, best, count)) \<Rightarrow> 2 * depth - 1
             | Inr (Inr (state, depth, ms, alpha, beta, minScore, best, count)) \<Rightarrow> 2 * depth - 1,
         \<lambda>x. case x of
               Inl (state, depth, alpha, beta, maximizing, count) \<Rightarrow> 0
             | Inr (Inl (state, depth, ms, alpha, beta, maxScore, best, count)) \<Rightarrow> length ms
             | Inr (Inr (state, depth, ms, alpha, beta, minScore, best, count)) \<Rightarrow> length ms]")
     auto

declare minimax_intermediate.simps [simp del]

text \<open>
  The searches intermediate.ts runs: \<open>minimax\<close> at depth 2 (selectIntermediateMove) and
  3 (selectAdvancedMove), on the full window with a fresh counter.
\<close>

definition intermediateSearch :: "nat \<Rightarrow> GameState \<Rightarrow> error + SearchResult" where
  "intermediateSearch depth state =
     minimax_intermediate state depth NegInfinity Infinity (currentPlayer state = sente) 0"

section \<open>The position encoding as the specification words it\<close>

text \<open>
  The encoding in the words of the specification (section 4.7), to compare
  \<open>gameStateToSfen\<close> with. A piece is the letter of its base kind, upper case for the
  first player and lower case for the second, with \<open>+\<close> in front when promoted.
\<close>

fun spec_kindIndex :: "AllPieceType \<Rightarrow> nat" where
  "spec_kindIndex king = 0"
| "spec_kindIndex rook = 1"
| "spec_kindIndex bishop = 2"
| "spec_kindIndex gold = 3"
| "spec_kindIndex silver = 4"
| "spec_kindIndex knight = 5"
| "spec_kindIndex lance = 6"
| "spec_kindIndex pawn = 7"
| "spec_kindIndex promotedRook = 1"
| "spec_kindIndex promotedBishop = 2"
| "spec_kindIndex promotedSilver = 4"
| "spec_kindIndex promotedKnight = 5"
| "spec_kindIndex promotedLance = 6"
| "spec_kindIndex promotedPawn = 7"

definition spec_pieceSfen :: "Piece \<Rightarrow> string" where
  "spec_pieceSfen p =
     (if type p \<in> {promotedRook, promotedBishop, promotedSilver, promotedKnight,
                    promotedLance, promotedPawn} then ''+'' else [])
     @ [(if owner p = sente then ''KRBGSNLP'' else ''krbgsnlp'') ! spec_kindIndex (type p)]"

text \<open>
  A rank, left to right: a piece is written as above; a maximal run of \<open>n\<close> empty
  squares (1 to 9) is written as the digit \<open>n\<close>.
\<close>

function spec_rowSfen :: "Square list \<Rightarrow> string" where
  "spec_rowSfen [] = []"
| "spec_rowSfen (Some p # rest) = spec_pieceSfen p @ spec_rowSfen rest"
| "spec_rowSfen (None # rest) =
     (''123456789'' ! length (takeWhile (\<lambda>sq. sq = None) rest))
       # spec_rowSfen (dropWhile (\<lambda>sq. sq = None) rest)"
  by pat_completeness auto
termination
  by (relation "measure length") (auto simp: length_dropWhile_le less_Suc_eq_le)

text \<open>The board: the ranks from the first to the ninth, separated by \<open>/\<close>.\<close>

fun spec_join :: "string list \<Rightarrow> string" where
  "spec_join [] = []"
| "spec_join (x # xs) = x @ concat (map (\<lambda>r. CHR ''/'' # r) xs)"

definition spec_boardSfen :: "Board \<Rightarrow> string" where
  "spec_boardSfen b = spec_join (map spec_rowSfen b)"

text \<open>
  The reserves: per kind in the order rook, bishop, gold, silver, knight, lance, pawn,
  first player then second, the count (left out when it is 1) and then the letter,
  nothing for a kind that is not held, and \<open>-\<close> when neither side holds anything.
\<close>

definition spec_handEntry :: "int \<Rightarrow> char \<Rightarrow> string" where
  "spec_handEntry n letter =
     (if n \<le> 0 then [] else if n = 1 then [letter] else numberToString n @ [letter])"

definition spec_handsSfen :: "(Player \<Rightarrow> Hand) \<Rightarrow> string" where
  "spec_handsSfen hs =
     (if list_all (\<lambda>k. hs sente k \<le> 0 \<and> hs gote k \<le> 0)
           [Rook, Bishop, Gold, Silver, Knight, Lance, Pawn]
      then ''-''
      else spec_handEntry (hs sente Rook) CHR ''R'' @ spec_handEntry (hs sente Bishop) CHR ''B''
         @ spec_handEntry (hs sente Gold) CHR ''G'' @ spec_handEntry (hs sente Silver) CHR ''S''
         @ spec_handEntry (hs sente Knight) CHR ''N'' @ spec_handEntry (hs sente Lance) CHR ''L''
         @ spec_handEntry (hs sente Pawn) CHR ''P''
         @ spec_handEntry (hs gote Rook) CHR ''r'' @ spec_handEntry (hs gote Bishop) CHR ''b''
         @ spec_handEntry (hs gote Gold) CHR ''g'' @ spec_handEntry (hs gote Silver) CHR ''s''
         @ spec_handEntry (hs gote Knight) CHR ''n'' @ spec_handEntry (hs gote Lance) CHR ''l''
         @ spec_handEntry (hs gote Pawn) CHR ''p'')"

section \<open>Example positions\<close>

text \<open>
  \<open>dropEscapeBoard\<close>: the first player's king on 9-nine is checked along the ninth file
  by the rook on 9-one; its own lance (8-nine) and pawn (8-eight) take the two other
  flight squares, and no relocation interposes or captures. A piece dropped on the file
  between rook and king parries the check.
\<close>

definition dropEscapeBoard :: Board where
  "dropEscapeBoard =
     [[Some (createPiece rook gote), None, None, None, Some (createPiece king gote),
       None, None, None, None],
      emptyRow, emptyRow, emptyRow, emptyRow, emptyRow, emptyRow,
      [None, Some (createPiece pawn sente), None, None, None, None, None, None, None],
      [Some (createPiece king sente), Some (createPiece lance sente), None, None, None,
       None, None, None, None]]"

definition oneGold :: Hand where
  "oneGold = createEmptyHand(Gold := 1)"

definition dropEscapeState :: GameState where
  "dropEscapeState =
     createInitialGameState
       \<lparr>board := dropEscapeBoard, hands := (\<lambda>p. createEmptyHand)(sente := oneGold)\<rparr>"

text \<open>
  \<open>promotionBoard\<close>: a pawn of the first player on 5-two, one step from the farthest
  rank, and a silver on 3-four, one step from the promotion zone.
\<close>

definition promotionBoard :: Board where
  "promotionBoard =
     [[None, None, None, None, None, None, None, None, Some (createPiece king gote)],
      [None, None, None, None, Some (createPiece pawn sente), None, None, None, None],
      emptyRow,
      [None, None, None, None, None, None, Some (createPiece silver sente), None, None],
      emptyRow, emptyRow, emptyRow, emptyRow,
      [None, None, None, None, Some (createPiece king sente), None, None, None, None]]"

text \<open>The pawn of \<open>promotionBoard\<close> stepping onto the farthest rank, promoting.\<close>

definition pawnPush :: MoveAction where
  "pawnPush = \<lparr>moveFrom = \<lparr>col = 5, row = 2\<rparr>, moveTo = \<lparr>col = 5, row = 1\<rparr>,
                movePiece = pawn, captured = None, promote = True\<rparr>"

text \<open>The silver of \<open>promotionBoard\<close> stepping into the promotion zone.\<close>

definition silverStep :: "bool \<Rightarrow> MoveAction" where
  "silverStep pr = \<lparr>moveFrom = \<lparr>col = 3, row = 4\<rparr>, moveTo = \<lparr>col = 3, row = 3\<rparr>,
                     movePiece = silver, captured = None, promote = pr\<rparr>"

text \<open>
  Two drops on \<open>dropEscapeBoard\<close>: a gold between rook and king, and a pawn on the
  eighth file, where a pawn of the first player already stands.
\<close>

definition goldDrop :: DropAction where
  "goldDrop = \<lparr>dropTo = \<lparr>col = 9, row = 5\<rparr>, dropPiece = Gold\<rparr>"

definition pawnDrop :: DropAction where
  "pawnDrop = \<lparr>dropTo = \<lparr>col = 8, row = 5\<rparr>, dropPiece = Pawn\<rparr>"

definition onePawn :: Hand where
  "onePawn = createEmptyHand(Pawn := 1)"

text \<open>
  A game played through the interface: \<open>playMoves\<close> feeds relocations (origin,
  destination, no promotion) to \<open>executeMoveWithPromotion\<close> one after the other.
  \<open>kingShuffle\<close> moves both kings one step forward and back again, which restores the
  position it started from.
\<close>

fun playMoves :: "GameState \<Rightarrow> (Position \<times> Position) list \<Rightarrow> error + GameState" where
  "playMoves s [] = Inr s"
| "playMoves s ((f, t) # ms) =
     (case executeMoveWithPromotion s f t False of
        Inl e \<Rightarrow> Inl e
      | Inr s' \<Rightarrow> playMoves s' ms)"

definition kingShuffle :: "(Position \<times> Position) list" where
  "kingShuffle =
     [(\<lparr>col = 5, row = 9\<rparr>, \<lparr>col = 5, row = 8\<rparr>), (\<lparr>col = 5, row = 1\<rparr>, \<lparr>col = 5, row = 2\<rparr>),
      (\<lparr>col = 5, row = 8\<rparr>, \<lparr>col = 5, row = 9\<rparr>), (\<lparr>col = 5, row = 2\<rparr>, \<lparr>col = 5, row = 1\<rparr>)]"

text \<open>
  \<open>hangingRookState\<close>: the first player to move; its pawn on 5-five can take the
  undefended rook on 5-four, and nothing else can be taken by either side.
\<close>

definition hangingRookBoard :: Board where
  "hangingRookBoard =
     [[None, None, None, None, Some (createPiece king gote), None, None, None, None],
      emptyRow, emptyRow,
      [None, None, None, None, Some (createPiece rook gote), None, None, None, None],
      [None, None, None, None, Some (createPiece pawn sente), None, None, None, None],
      emptyRow, emptyRow, emptyRow,
      [None, None, None, None, Some (createPiece king sente), None, None, None, None]]"

definition hangingRookState :: GameState where
  "hangingRookState = createInitialGameState\<lparr>board := hangingRookBoard\<rparr>"

text \<open>The capture on \<open>hangingRookBoard\<close>, as \<open>getLegalMovesForPiece\<close> returns it.\<close>

definition rookCapture :: MoveAction where
  "rookCapture = \<lparr>moveFrom = \<lparr>col = 5, row = 5\<rparr>, moveTo = \<lparr>col = 5, row = 4\<rparr>,
                   movePiece = pawn, captured = Some rook, promote = False\<rparr>"

text \<open>
  The king of \<open>dropEscapeBoard\<close> stepping forward to 9-eight, where it stays on the
  file of the rook.
\<close>

definition kingStep :: MoveAction where
  "kingStep = \<lparr>moveFrom = \<lparr>col = 9, row = 9\<rparr>, moveTo = \<lparr>col = 9, row = 8\<rparr>,
                movePiece = king, captured = None, promote = False\<rparr>"

text \<open>
  \<open>stepEscapeBoard\<close>: \<open>dropEscapeBoard\<close> without the lance on 8-nine, so that the checked
  king can step aside (\<open>kingSideStep\<close>). The reserves of \<open>stepEscapeState\<close> are those of
  \<open>dropEscapeState\<close>.
\<close>

definition stepEscapeBoard :: Board where
  "stepEscapeBoard =
     [[Some (createPiece rook gote), None, None, None, Some (createPiece king gote),
       None, None, None, None],
      emptyRow, emptyRow, emptyRow, emptyRow, emptyRow, emptyRow,
      [None, Some (createPiece pawn sente), None, None, None, None, None, None, None],
      [Some (createPiece king sente), None, None, None, None, None, None, None, None]]"

definition stepEscapeState :: GameState where
  "stepEscapeState =
     createInitialGameState
       \<lparr>board := stepEscapeBoard, hands := (\<lambda>p. createEmptyHand)(sente := oneGold)\<rparr>"

definition kingSideStep :: MoveAction where
  "kingSideStep = \<lparr>moveFrom = \<lparr>col = 9, row = 9\<rparr>, moveTo = \<lparr>col = 8, row = 9\<rparr>,
                    movePiece = king, captured = None, promote = False\<rparr>"

text \<open>
  \<open>sfenExampleState\<close>: a position with pieces of both players, a promoted piece of each,
  empty runs of every kind and pieces in both hands; the second player is to move.
  \<open>sfenExampleReplay\<close> is the same position met later in a game.
\<close>

definition sfenExampleBoard :: Board where
  "sfenExampleBoard =
     [[Some (createPiece lance gote), None, None, None, Some (createPiece king gote),
       None, None, None, Some \<lparr>type = promotedRook, owner = sente, isPromoted = True\<rparr>],
      emptyRow, emptyRow, emptyRow, emptyRow, emptyRow,
      [Some \<lparr>type = promotedPawn, owner = gote, isPromoted = True\<rparr>, None,
       Some (createPiece pawn sente), None, None, None, None, None, None],
      emptyRow,
      [None, None, None, None, Some (createPiece king sente), None, None, None, None]]"

definition sfenExampleState :: GameState where
  "sfenExampleState =
     createInitialGameState
       \<lparr>board := sfenExampleBoard,
        hands := (\<lambda>p. createEmptyHand)
                   (sente := createEmptyHand(Bishop := 1, Pawn := 2),
                    gote := createEmptyHand(Gold := 1, Pawn := 12)),
        currentPlayer := gote\<rparr>"

definition sfenExampleReplay :: GameState where
  "sfenExampleReplay =
     sfenExampleState
       \<lparr>positionHistory := [gameStateToSfen sfenExampleState], moveCount := 57,
        gamePhase := endgamePhase, isCheck := True\<rparr>"


section \<open>Properties\<close>


lemma set_boardIndices: "set boardIndices = {(r, c). r < 9 \<and> c < 9}"
  by (auto simp: boardIndices_def)

lemma catalog_directions_move:
  "pattern \<in> set (PIECE_MOVES pieceType) \<Longrightarrow>
   dcol (adjustDirectionForPlayer (direction pattern) ow) \<noteq> 0 \<or>
   drow (adjustDirectionForPlayer (direction pattern) ow) \<noteq> 0"
  by (cases pieceType)
     (auto simp: adjustDirectionForPlayer_def pat_def KING_MOVES_def ROOK_MOVES_def
        PROMOTED_ROOK_MOVES_def BISHOP_MOVES_def PROMOTED_BISHOP_MOVES_def GOLD_MOVES_def
        SILVER_MOVES_def KNIGHT_MOVES_def LANCE_MOVES_def PAWN_MOVES_def UP_def DOWN_def
        LEFT_def RIGHT_def UP_LEFT_def UP_RIGHT_def DOWN_LEFT_def DOWN_RIGHT_def
        KNIGHT_LEFT_def KNIGHT_RIGHT_def)

lemma promotePiece_canPromote:
  "canPromote t \<Longrightarrow> \<exists>promoted. promotePiece t = Inr promoted"
  by (auto simp: canPromote_def promotePiece_def split: option.splits)

lemma findKingPosition_None_iff:
  "findKingPosition b player = None \<longleftrightarrow> (\<forall>r<9. \<forall>c<9. \<not> isKingOf player (b ! r ! c))"
proof -
  have "findKingPosition b player = None \<longleftrightarrow>
        List.find (\<lambda>(r, c). isKingOf player (b ! r ! c)) boardIndices = None"
    by (simp add: findKingPosition_def split: option.splits prod.splits)
  then show ?thesis
    by (auto simp: find_None_iff set_boardIndices)
qed

lemma isKingOf_iff:
  "isKingOf player sq \<longleftrightarrow> (\<exists>piece. sq = Some piece \<and> type piece = king \<and> owner piece = player)"
  by (cases sq) (auto simp: isKingOf_def)

lemma isInCheck_no_king:
  "\<forall>r<9. \<forall>c<9. \<not> isKingOf player (b ! r ! c) \<Longrightarrow> \<not> isInCheck b player"
  using findKingPosition_None_iff [of b player] by (simp add: isInCheck_def)

text \<open>
  C10. If the player has no king anywhere on the board, \<open>isInCheck\<close> returns false and
  so does \<open>isCheckmate\<close>, with or without a reserve: the check-dependent operations
  return on king-less boards.
\<close>

theorem C10_kingless_board_not_in_check:
  assumes "wfBoard b"
    and "\<forall>r<9. \<forall>c<9. \<forall>piece. b ! r ! c = Some piece \<longrightarrow>
           \<not> (type piece = king \<and> owner piece = player)"
  shows "\<not> isInCheck b player \<and> \<not> isCheckmate b player hand"
proof -
  from assms(2) have "\<forall>r<9. \<forall>c<9. \<not> isKingOf player (b ! r ! c)"
    by (auto simp: isKingOf_iff)
  then have "\<not> isInCheck b player" by (rule isInCheck_no_king)
  then show ?thesis by (simp add: isCheckmate_def)
qed

lemma all_squares_iff:
  "(\<forall>r<9. \<forall>c<9. P r c) \<longleftrightarrow> list_all (\<lambda>(r, c). P r c) boardIndices"
  by (auto simp: list_all_iff set_boardIndices)

theorem C10_witness:
  "wfBoard (createInitialBoard[8 := emptyRow]) \<and>
   \<not> isInCheck (createInitialBoard[8 := emptyRow]) sente \<and>
   \<not> isCheckmate (createInitialBoard[8 := emptyRow]) sente (Some createEmptyHand)"
proof -
  have wf: "wfBoard (createInitialBoard[8 := emptyRow])" by code_simp
  have nk: "\<forall>r<9. \<forall>c<9. \<forall>piece. (createInitialBoard[8 := emptyRow]) ! r ! c = Some piece \<longrightarrow>
           \<not> (type piece = king \<and> owner piece = sente)"
  proof -
    have "\<forall>r<9. \<forall>c<9. \<not> isKingOf sente ((createInitialBoard[8 := emptyRow]) ! r ! c)"
      unfolding all_squares_iff by code_simp
    then show ?thesis by (auto simp: isKingOf_iff)
  qed
  show ?thesis
    using C10_kingless_board_not_in_check [OF wf nk, of "Some createEmptyHand"] wf by simp
qed

lemma boardIndices_eq: "boardIndices = map (\<lambda>i. (i div 9, i mod 9)) [0..<81]"
  by code_simp

lemma length_boardIndices: "length boardIndices = 81"
  by (simp add: boardIndices_eq)

lemma nth_boardIndices: "i < 81 \<Longrightarrow> boardIndices ! i = (i div 9, i mod 9)"
  by (simp add: boardIndices_eq)

lemma find_boardIndices_Some_iff:
  "List.find P boardIndices = Some (kr, kc) \<longleftrightarrow>
     kr < 9 \<and> kc < 9 \<and> P (kr, kc) \<and>
     (\<forall>r<9. \<forall>c<9. P (r, c) \<longrightarrow> kr < r \<or> (kr = r \<and> kc \<le> c))"
proof
  assume "List.find P boardIndices = Some (kr, kc)"
  then have "\<exists>i<length boardIndices. P (boardIndices ! i) \<and> (kr, kc) = boardIndices ! i \<and>
               (\<forall>j<i. \<not> P (boardIndices ! j))"
    by (simp only: find_Some_iff)
  then obtain i where i: "i < 81" "P (boardIndices ! i)" "(kr, kc) = boardIndices ! i"
    and before: "\<And>j. j < i \<Longrightarrow> \<not> P (boardIndices ! j)"
    unfolding length_boardIndices by blast
  from i(1,3) have krc: "kr = i div 9" "kc = i mod 9"
    by (simp_all add: nth_boardIndices)
  have first: "kr < r \<or> (kr = r \<and> kc \<le> c)" if "r < 9" "c < 9" "P (r, c)" for r c
  proof (rule ccontr)
    assume "\<not> (kr < r \<or> (kr = r \<and> kc \<le> c))"
    moreover from krc have "i = 9 * kr + kc" by simp
    ultimately have lt: "9 * r + c < i" using that(2) by auto
    with i(1) that(2) have "boardIndices ! (9 * r + c) = (r, c)"
      by (simp add: nth_boardIndices)
    with before [OF lt] that(3) show False by simp
  qed
  from i(1) krc have "kr < 9" "kc < 9" by simp_all
  moreover from i(2,3) have "P (kr, kc)" by simp
  ultimately show "kr < 9 \<and> kc < 9 \<and> P (kr, kc) \<and>
     (\<forall>r<9. \<forall>c<9. P (r, c) \<longrightarrow> kr < r \<or> (kr = r \<and> kc \<le> c))"
    using first by blast
next
  assume a: "kr < 9 \<and> kc < 9 \<and> P (kr, kc) \<and>
     (\<forall>r<9. \<forall>c<9. P (r, c) \<longrightarrow> kr < r \<or> (kr = r \<and> kc \<le> c))"
  let ?i = "9 * kr + kc"
  from a have i81: "?i < 81" by simp
  from a have nth: "boardIndices ! ?i = (kr, kc)"
    using i81 by (simp add: nth_boardIndices)
  have before: "\<not> P (boardIndices ! j)" if "j < ?i" for j
  proof
    assume Pj: "P (boardIndices ! j)"
    define jr jc where "jr = j div 9" and "jc = j mod 9"
    have j_eq: "j = 9 * jr + jc" by (simp add: jr_def jc_def)
    from that i81 have j81: "j < 81" by simp
    then have jn: "boardIndices ! j = (jr, jc)"
      by (simp add: nth_boardIndices jr_def jc_def)
    from j81 have "jr < 9" "jc < 9" by (simp_all add: jr_def jc_def)
    with a Pj jn have "kr < jr \<or> (kr = jr \<and> kc \<le> jc)" by simp
    then show False
    proof
      assume "kr < jr"
      then have "9 * kr + 9 \<le> 9 * jr" by simp
      moreover from a have "kc < 9" by simp
      ultimately show False using that j_eq by simp
    next
      assume "kr = jr \<and> kc \<le> jc"
      with that j_eq show False by simp
    qed
  qed
  have "?i < length boardIndices \<and> P (boardIndices ! ?i) \<and> (kr, kc) = boardIndices ! ?i \<and>
               (\<forall>j<?i. \<not> P (boardIndices ! j))"
  proof (intro conjI allI impI)
    show "?i < length boardIndices" using i81 by (simp only: length_boardIndices)
    show "P (boardIndices ! ?i)" using a by (simp only: nth)
    show "(kr, kc) = boardIndices ! ?i" by (simp only: nth)
    show "\<not> P (boardIndices ! j)" if "j < ?i" for j using that by (rule before)
  qed
  then have "\<exists>i<length boardIndices. P (boardIndices ! i) \<and> (kr, kc) = boardIndices ! i \<and>
               (\<forall>j<i. \<not> P (boardIndices ! j))"
    by (rule exI)
  then show "List.find P boardIndices = Some (kr, kc)"
    by (simp only: find_Some_iff)
qed

lemma findKingPosition_Some_iff:
  "findKingPosition b player = Some kingPos \<longleftrightarrow>
     (\<exists>kr<9. \<exists>kc<9. kingPos = indexToPosition kr kc \<and> isKingOf player (b ! kr ! kc) \<and>
        (\<forall>r<9. \<forall>c<9. isKingOf player (b ! r ! c) \<longrightarrow> kr < r \<or> (kr = r \<and> kc \<le> c)))"
proof -
  define P where "P = (\<lambda>(r, c). isKingOf player (b ! r ! c))"
  have P: "P (r, c) = isKingOf player (b ! r ! c)" for r c
    by (simp add: P_def)
  have "findKingPosition b player = Some kingPos \<longleftrightarrow>
        (\<exists>r c. List.find P boardIndices = Some (r, c) \<and> kingPos = indexToPosition r c)"
    unfolding P_def by (auto simp: findKingPosition_def split: option.splits prod.splits)
  then show ?thesis
    unfolding find_boardIndices_Some_iff P by blast
qed

lemma isSquareAttacked_iff:
  "isSquareAttacked b targetPos byPlayer \<longleftrightarrow>
     (\<exists>r<9. \<exists>c<9. \<exists>piece. b ! r ! c = Some piece \<and> owner piece = byPlayer \<and>
        targetPos \<in> set (getRawMoves b (indexToPosition r c) (type piece) byPlayer))"
proof -
  have eq: "\<And>m. (col m = col targetPos \<and> row m = row targetPos) = (m = targetPos)"
    by auto
  have sq: "(case sq of None \<Rightarrow> False
             | Some piece \<Rightarrow> owner piece = byPlayer \<and>
                 list_ex (\<lambda>m. col m = col targetPos \<and> row m = row targetPos)
                   (getRawMoves b pos (type piece) byPlayer))
            \<longleftrightarrow> (\<exists>piece. sq = Some piece \<and> owner piece = byPlayer \<and>
                   targetPos \<in> set (getRawMoves b pos (type piece) byPlayer))"
    for sq pos
    by (cases sq) (auto simp: list_ex_iff eq)
  show ?thesis
    unfolding isSquareAttacked_def list_ex_iff [of _ boardIndices] set_boardIndices
    by (simp add: sq Bex_def)
qed

text \<open>
  C3. On a 9x9 board, \<open>isInCheck board player\<close> is true exactly when the player has a
  king on the board and some piece of the opponent has the square of that king in its
  raw-move set (\<open>getRawMoves\<close> on the current board, self-check ignored). The king
  is the one \<open>findKingPosition\<close> returns: the first in row-major order, which is the
  only one on a board with at most one king per owner.
\<close>

theorem C3_isInCheck_iff_king_in_raw_moves:
  assumes "wfBoard b"
  shows "isInCheck b player \<longleftrightarrow>
     (\<exists>kr<9. \<exists>kc<9.
        isKingOf player (b ! kr ! kc) \<and>
        (\<forall>r<9. \<forall>c<9. isKingOf player (b ! r ! c) \<longrightarrow> kr < r \<or> (kr = r \<and> kc \<le> c)) \<and>
        (\<exists>r<9. \<exists>c<9. \<exists>piece.
            b ! r ! c = Some piece \<and> owner piece = opponentOf player \<and>
            indexToPosition kr kc
              \<in> set (getRawMoves b (indexToPosition r c) (type piece) (opponentOf player))))"
proof (cases "findKingPosition b player")
  case None
  then show ?thesis
    using findKingPosition_None_iff [of b player] by (auto simp: isInCheck_def)
next
  case (Some kingPos)
  show ?thesis
  proof
    assume "isInCheck b player"
    with Some have att: "isSquareAttacked b kingPos (opponentOf player)"
      by (simp add: isInCheck_def)
    from Some obtain kr kc where k: "kr < 9" "kc < 9" "kingPos = indexToPosition kr kc"
      "isKingOf player (b ! kr ! kc)"
      "\<forall>r<9. \<forall>c<9. isKingOf player (b ! r ! c) \<longrightarrow> kr < r \<or> (kr = r \<and> kc \<le> c)"
      unfolding findKingPosition_Some_iff by blast
    from att k show "\<exists>kr<9. \<exists>kc<9.
        isKingOf player (b ! kr ! kc) \<and>
        (\<forall>r<9. \<forall>c<9. isKingOf player (b ! r ! c) \<longrightarrow> kr < r \<or> (kr = r \<and> kc \<le> c)) \<and>
        (\<exists>r<9. \<exists>c<9. \<exists>piece.
            b ! r ! c = Some piece \<and> owner piece = opponentOf player \<and>
            indexToPosition kr kc
              \<in> set (getRawMoves b (indexToPosition r c) (type piece) (opponentOf player)))"
      unfolding isSquareAttacked_iff by blast
  next
    assume "\<exists>kr<9. \<exists>kc<9.
        isKingOf player (b ! kr ! kc) \<and>
        (\<forall>r<9. \<forall>c<9. isKingOf player (b ! r ! c) \<longrightarrow> kr < r \<or> (kr = r \<and> kc \<le> c)) \<and>
        (\<exists>r<9. \<exists>c<9. \<exists>piece.
            b ! r ! c = Some piece \<and> owner piece = opponentOf player \<and>
            indexToPosition kr kc
              \<in> set (getRawMoves b (indexToPosition r c) (type piece) (opponentOf player)))"
    then obtain kr kc where k: "kr < 9" "kc < 9" "isKingOf player (b ! kr ! kc)"
      "\<forall>r<9. \<forall>c<9. isKingOf player (b ! r ! c) \<longrightarrow> kr < r \<or> (kr = r \<and> kc \<le> c)"
      and att: "\<exists>r<9. \<exists>c<9. \<exists>piece.
            b ! r ! c = Some piece \<and> owner piece = opponentOf player \<and>
            indexToPosition kr kc
              \<in> set (getRawMoves b (indexToPosition r c) (type piece) (opponentOf player))"
      by blast
    from k have "findKingPosition b player = Some (indexToPosition kr kc)"
      unfolding findKingPosition_Some_iff by blast
    with att show "isInCheck b player"
      by (simp add: isInCheck_def isSquareAttacked_iff)
  qed
qed

theorem C3_witness:
  "wfBoard dropEscapeBoard \<and> isInCheck dropEscapeBoard sente \<and>
   (\<exists>kr<9. \<exists>kc<9.
        isKingOf sente (dropEscapeBoard ! kr ! kc) \<and>
        (\<exists>r<9. \<exists>c<9. \<exists>piece.
            dropEscapeBoard ! r ! c = Some piece \<and> owner piece = opponentOf sente \<and>
            indexToPosition kr kc
              \<in> set (getRawMoves dropEscapeBoard (indexToPosition r c) (type piece)
                      (opponentOf sente))))"
proof -
  have wf: "wfBoard dropEscapeBoard" by code_simp
  have chk: "isInCheck dropEscapeBoard sente" by code_simp
  from chk C3_isInCheck_iff_king_in_raw_moves [OF wf, of sente] wf chk
  show ?thesis by blast
qed

lemma cloneBoard_id: "cloneBoard b = b"
proof -
  have "(\<lambda>square. case square of Some p \<Rightarrow> Some p | None \<Rightarrow> None) = (\<lambda>square::Square. square)"
    by (auto split: option.splits)
  then show ?thesis by (simp add: cloneBoard_def)
qed

lemma wfBoard_rows: "wfBoard b \<Longrightarrow> length b = 9 \<and> (\<forall>r<9. length (b ! r) = 9)"
  by (auto simp: wfBoard_def list_all_length)

lemma setSquare_nth:
  "r < length b \<Longrightarrow> c < length (b ! r) \<Longrightarrow>
   setSquare b r c sq ! r' ! c' = (if r' = r \<and> c' = c then sq else b ! r' ! c')"
  by (auto simp: setSquare_def nth_list_update)

lemma length_setSquare: "length (setSquare b r c sq) = length b"
  by (simp add: setSquare_def)

lemma length_setSquare_row: "length (setSquare b r c sq ! r') = length (b ! r')"
  by (cases "r < length b") (auto simp: setSquare_def nth_list_update list_update_beyond)

lemma wfBoard_setSquare: "wfBoard b \<Longrightarrow> wfBoard (setSquare b r c sq)"
  by (simp add: wfBoard_def list_all_length length_setSquare length_setSquare_row)

lemma getPieceAt_nth: "getPieceAt b pos = b ! nat (row pos - 1) ! nat (9 - col pos)"
  by (simp add: getPieceAt_def positionToIndex_def)

lemma validPos_index:
  "validPos pos \<Longrightarrow> nat (row pos - 1) < 9 \<and> nat (9 - col pos) < 9"
  by (auto simp: validPos_def isValidPosition_def)

lemma validPos_index_inj:
  assumes "validPos p" "validPos q"
    and "nat (row p - 1) = nat (row q - 1)" "nat (9 - col p) = nat (9 - col q)"
  shows "p = q"
proof -
  from assms have "row p = row q" "col p = col q"
    by (auto simp: validPos_def isValidPosition_def)
  then show ?thesis by simp
qed

text \<open>What \<open>applyMove\<close> leaves on the squares of the new board.\<close>

lemma applyMove_squares:
  assumes wf: "wfBoard b" and vf: "validPos (moveFrom m)" and vt: "validPos (moveTo m)"
    and mp: "getPieceAt b (moveFrom m) = Some mp" and vp: "validPos pos"
  shows "getPieceAt (fst (applyMove b m)) pos =
     (if pos = moveTo m then
        Some (if promote m \<and> canPromote (type mp) \<and> \<not> isPromotedPiece (type mp)
              then mp\<lparr>type := the (PROMOTION_MAP (type mp)), isPromoted := True\<rparr> else mp)
      else if pos = moveFrom m then None
      else getPieceAt b pos)"
proof -
  let ?fr = "nat (row (moveFrom m) - 1)" and ?fc = "nat (9 - col (moveFrom m))"
  let ?tr = "nat (row (moveTo m) - 1)" and ?tc = "nat (9 - col (moveTo m))"
  let ?pr = "nat (row pos - 1)" and ?pc = "nat (9 - col pos)"
  let ?placed = "if promote m \<and> canPromote (type mp) \<and> \<not> isPromotedPiece (type mp)
              then mp\<lparr>type := the (PROMOTION_MAP (type mp)), isPromoted := True\<rparr> else mp"
  from wf have len: "length b = 9" and rows: "\<And>r. r < 9 \<Longrightarrow> length (b ! r) = 9"
    using wfBoard_rows by auto
  from vf vt vp have idx: "?fr < 9" "?fc < 9" "?tr < 9" "?tc < 9" "?pr < 9" "?pc < 9"
    using validPos_index by auto
  have prom: "canPromote (type mp) \<Longrightarrow>
      (case promotePiece (type mp) of Inr promoted \<Rightarrow> mp\<lparr>type := promoted, isPromoted := True\<rparr>
       | Inl e \<Rightarrow> mp) = mp\<lparr>type := the (PROMOTION_MAP (type mp)), isPromoted := True\<rparr>"
    by (auto simp: canPromote_def promotePiece_def split: option.splits)
  have board_eq: "fst (applyMove b m) =
      setSquare (setSquare b ?fr ?fc None) ?tr ?tc (Some ?placed)"
    using mp prom
    by (auto simp: applyMove_def cloneBoard_id positionToIndex_def getPieceAt_nth Let_def)
  have cleared: "setSquare b ?fr ?fc None ! r ! c = (if r = ?fr \<and> c = ?fc then None else b ! r ! c)"
    for r c
    using idx len rows by (simp add: setSquare_nth)
  have "getPieceAt (fst (applyMove b m)) pos =
      (if ?pr = ?tr \<and> ?pc = ?tc then Some ?placed
       else if ?pr = ?fr \<and> ?pc = ?fc then None else b ! ?pr ! ?pc)"
    unfolding board_eq getPieceAt_nth [of _ pos]
    using idx len rows
    by (subst setSquare_nth) (simp_all add: length_setSquare length_setSquare_row cleared)
  moreover have "(?pr = ?tr \<and> ?pc = ?tc) = (pos = moveTo m)"
    using validPos_index_inj [OF vp vt] by auto
  moreover have "(?pr = ?fr \<and> ?pc = ?fc) = (pos = moveFrom m)"
    using validPos_index_inj [OF vp vf] by auto
  ultimately show ?thesis
    by (simp add: getPieceAt_nth [of b pos])
qed

lemma in_movesToTarget:
  "mv \<in> set (movesToTarget b fromPos piece player to) \<Longrightarrow>
     isLegalMove b mv player \<and> moveFrom mv = fromPos \<and> moveTo mv = to \<and>
     movePiece mv = type piece \<and> captured mv = map_option type (getPieceAt b to) \<and>
     (promote mv \<longrightarrow> canPromote (type piece) \<and> \<not> isPromotedPiece (type piece) \<and>
                       canPromoteMove fromPos to player) \<and>
     (\<not> promote mv \<longrightarrow> \<not> (canPromote (type piece) \<and> \<not> isPromotedPiece (type piece) \<and>
                       canPromoteMove fromPos to player \<and> mustPromote (type piece) to player))"
  by (auto simp: movesToTarget_def Let_def split: if_splits)

lemma in_getLegalMovesForPiece:
  "mv \<in> set (getLegalMovesForPiece b fromPos player) \<longleftrightarrow>
     (\<exists>piece to. getPieceAt b fromPos = Some piece \<and> owner piece = player \<and>
        to \<in> set (getRawMoves b fromPos (type piece) player) \<and>
        mv \<in> set (movesToTarget b fromPos piece player to))"
proof (cases "getPieceAt b fromPos")
  case None
  then show ?thesis by (simp add: getLegalMovesForPiece_def)
next
  case (Some piece)
  then show ?thesis by (cases "owner piece = player") (auto simp: getLegalMovesForPiece_def)
qed

lemma promotable_iff:
  "canPromote t \<and> \<not> isPromotedPiece t \<longleftrightarrow> t \<in> {rook, bishop, silver, knight, lance, pawn}"
  by (cases t) (simp_all add: canPromote_def isPromotedPiece_def)

lemma isDeadPosition_iff:
  "isDeadPosition t to player \<longleftrightarrow>
     ((t = pawn \<or> t = lance) \<and> row to = (if player = sente then 1 else 9)) \<or>
     (t = knight \<and> (if player = sente then row to \<le> 2 else row to \<ge> 8))"
  by (auto simp: isDeadPosition_def)

lemma in_movesToTarget_iff:
  "mv \<in> set (movesToTarget b fromPos piece player to) \<longleftrightarrow>
     moveFrom mv = fromPos \<and> moveTo mv = to \<and> movePiece mv = type piece \<and>
     captured mv = map_option type (getPieceAt b to) \<and>
     (promote mv \<longrightarrow> canPromote (type piece) \<and> \<not> isPromotedPiece (type piece) \<and>
                       canPromoteMove fromPos to player) \<and>
     (\<not> promote mv \<longrightarrow> \<not> (canPromote (type piece) \<and> \<not> isPromotedPiece (type piece) \<and>
                       canPromoteMove fromPos to player \<and> mustPromote (type piece) to player)) \<and>
     isLegalMove b mv player"
proof
  assume "mv \<in> set (movesToTarget b fromPos piece player to)"
  from in_movesToTarget [OF this]
  show "moveFrom mv = fromPos \<and> moveTo mv = to \<and> movePiece mv = type piece \<and>
     captured mv = map_option type (getPieceAt b to) \<and>
     (promote mv \<longrightarrow> canPromote (type piece) \<and> \<not> isPromotedPiece (type piece) \<and>
                       canPromoteMove fromPos to player) \<and>
     (\<not> promote mv \<longrightarrow> \<not> (canPromote (type piece) \<and> \<not> isPromotedPiece (type piece) \<and>
                       canPromoteMove fromPos to player \<and> mustPromote (type piece) to player)) \<and>
     isLegalMove b mv player"
    by blast
next
  assume a: "moveFrom mv = fromPos \<and> moveTo mv = to \<and> movePiece mv = type piece \<and>
     captured mv = map_option type (getPieceAt b to) \<and>
     (promote mv \<longrightarrow> canPromote (type piece) \<and> \<not> isPromotedPiece (type piece) \<and>
                       canPromoteMove fromPos to player) \<and>
     (\<not> promote mv \<longrightarrow> \<not> (canPromote (type piece) \<and> \<not> isPromotedPiece (type piece) \<and>
                       canPromoteMove fromPos to player \<and> mustPromote (type piece) to player)) \<and>
     isLegalMove b mv player"
  then have eq: "mv = \<lparr>moveFrom = fromPos, moveTo = to, movePiece = type piece,
                       captured = map_option type (getPieceAt b to), promote = promote mv\<rparr>"
    by simp
  show "mv \<in> set (movesToTarget b fromPos piece player to)"
  proof (cases "promote mv")
    case True
    with eq have mv: "mv = \<lparr>moveFrom = fromPos, moveTo = to, movePiece = type piece,
                       captured = map_option type (getPieceAt b to), promote = True\<rparr>"
      by simp
    from a True have "canPromote (type piece) \<and> \<not> isPromotedPiece (type piece) \<and>
                       canPromoteMove fromPos to player" by blast
    moreover from a have "isLegalMove b mv player" by blast
    ultimately show ?thesis
      unfolding mv by (simp add: movesToTarget_def Let_def)
  next
    case False
    with eq have mv: "mv = \<lparr>moveFrom = fromPos, moveTo = to, movePiece = type piece,
                       captured = map_option type (getPieceAt b to), promote = False\<rparr>"
      by simp
    from a False have nf: "\<not> (canPromote (type piece) \<and> \<not> isPromotedPiece (type piece) \<and>
                       canPromoteMove fromPos to player \<and> mustPromote (type piece) to player)"
      by blast
    from a have "isLegalMove b mv player" by blast
    with nf show ?thesis
      unfolding mv by (auto simp: movesToTarget_def Let_def)
  qed
qed

lemma dead_implies_zone:
  "isDeadPosition t to player \<Longrightarrow>
   canPromote t \<and> \<not> isPromotedPiece t \<and> canPromoteMove fromPos to player"
  by (auto simp: isDeadPosition_iff canPromote_def isPromotedPiece_def canPromoteMove_def
      split: if_splits)

text \<open>The moves \<open>getLegalMovesForPiece\<close> returns, in the words of the promotion rules.\<close>

lemma getLegalMovesForPiece_iff:
  "mv \<in> set (getLegalMovesForPiece b fromPos player) \<longleftrightarrow>
     (\<exists>piece to.
        getPieceAt b fromPos = Some piece \<and> owner piece = player \<and>
        to \<in> set (getRawMoves b fromPos (type piece) player) \<and>
        moveFrom mv = fromPos \<and> moveTo mv = to \<and> movePiece mv = type piece \<and>
        captured mv = map_option type (getPieceAt b to) \<and>
        (promote mv \<longrightarrow>
           type piece \<in> {rook, bishop, silver, knight, lance, pawn} \<and>
           (if player = sente then row fromPos \<le> 3 \<or> row to \<le> 3
            else row fromPos \<ge> 7 \<or> row to \<ge> 7)) \<and>
        (\<not> promote mv \<longrightarrow>
           \<not> ((type piece = pawn \<or> type piece = lance) \<and>
                row to = (if player = sente then 1 else 9)) \<and>
           \<not> (type piece = knight \<and>
                (if player = sente then row to \<le> 2 else row to \<ge> 8))) \<and>
        \<not> isInCheck (fst (applyMove b mv)) player)"
proof -
  have flags: "((promote mv \<longrightarrow> canPromote (type piece) \<and> \<not> isPromotedPiece (type piece) \<and>
                       canPromoteMove fromPos to player) \<and>
     (\<not> promote mv \<longrightarrow> \<not> (canPromote (type piece) \<and> \<not> isPromotedPiece (type piece) \<and>
                       canPromoteMove fromPos to player \<and> mustPromote (type piece) to player)))
    \<longleftrightarrow>
     ((promote mv \<longrightarrow>
           type piece \<in> {rook, bishop, silver, knight, lance, pawn} \<and>
           (if player = sente then row fromPos \<le> 3 \<or> row to \<le> 3
            else row fromPos \<ge> 7 \<or> row to \<ge> 7)) \<and>
        (\<not> promote mv \<longrightarrow>
           \<not> ((type piece = pawn \<or> type piece = lance) \<and>
                row to = (if player = sente then 1 else 9)) \<and>
           \<not> (type piece = knight \<and>
                (if player = sente then row to \<le> 2 else row to \<ge> 8))))"
    for piece :: Piece and to
  proof -
    have z: "canPromoteMove fromPos to player =
        (if player = sente then row fromPos \<le> 3 \<or> row to \<le> 3
            else row fromPos \<ge> 7 \<or> row to \<ge> 7)"
      by (simp add: canPromoteMove_def)
    have d: "(canPromote (type piece) \<and> \<not> isPromotedPiece (type piece) \<and>
               canPromoteMove fromPos to player \<and> mustPromote (type piece) to player)
             = isDeadPosition (type piece) to player"
      using dead_implies_zone [of "type piece" to player fromPos]
      by (auto simp: mustPromote_def)
    have p: "(canPromote (type piece) \<and> \<not> isPromotedPiece (type piece) \<and>
               canPromoteMove fromPos to player)
             = (type piece \<in> {rook, bishop, silver, knight, lance, pawn} \<and>
                (if player = sente then row fromPos \<le> 3 \<or> row to \<le> 3
                 else row fromPos \<ge> 7 \<or> row to \<ge> 7))"
      using promotable_iff [of "type piece"] z by blast
    show ?thesis
      unfolding d unfolding p isDeadPosition_iff by blast
  qed
  show ?thesis
    unfolding in_getLegalMovesForPiece in_movesToTarget_iff isLegalMove_def
    using flags by blast
qed

text \<open>
  C1. \<open>isLegalMove\<close> accepts a board move exactly when, on the board \<open>applyMove\<close>
  builds from it, the mover's king is not in check. That board has the origin square
  empty, the moved piece on the destination (promoted when promotion is requested and
  the kind is promotable and not yet promoted) and every other square as before. Every
  move \<open>getLegalMovesForPiece\<close> returns leaves the mover's king out of check on the
  board it produces. And \<open>getLegalMovesForPiece\<close> returns exactly the candidates that
  pass this test: the moves of the player's piece on the origin to a raw destination,
  recording the captured kind, promoting only a promotable kind with origin or
  destination in the promotion zone and staying unpromoted only where the piece can
  still move, after which the mover's king is not in check.
\<close>

theorem C1_legal_moves_leave_king_unattacked:
  assumes "wfBoard b" and "validPos (moveFrom m)" and "validPos (moveTo m)"
    and "getPieceAt b (moveFrom m) = Some mp" and "validPos fromPos"
  shows "(isLegalMove b m player \<longleftrightarrow> \<not> isInCheck (fst (applyMove b m)) player) \<and>
         (\<forall>pos. validPos pos \<longrightarrow>
            getPieceAt (fst (applyMove b m)) pos =
              (if pos = moveTo m then
                 Some (if promote m \<and> canPromote (type mp) \<and> \<not> isPromotedPiece (type mp)
                       then mp\<lparr>type := the (PROMOTION_MAP (type mp)), isPromoted := True\<rparr>
                       else mp)
               else if pos = moveFrom m then None
               else getPieceAt b pos)) \<and>
         (\<forall>mv \<in> set (getLegalMovesForPiece b fromPos player).
            \<not> isInCheck (fst (applyMove b mv)) player) \<and>
         (\<forall>mv. mv \<in> set (getLegalMovesForPiece b fromPos player) \<longleftrightarrow>
            (\<exists>piece to.
               getPieceAt b fromPos = Some piece \<and> owner piece = player \<and>
               to \<in> set (getRawMoves b fromPos (type piece) player) \<and>
               moveFrom mv = fromPos \<and> moveTo mv = to \<and> movePiece mv = type piece \<and>
               captured mv = map_option type (getPieceAt b to) \<and>
               (promote mv \<longrightarrow>
                  type piece \<in> {rook, bishop, silver, knight, lance, pawn} \<and>
                  (if player = sente then row fromPos \<le> 3 \<or> row to \<le> 3
                   else row fromPos \<ge> 7 \<or> row to \<ge> 7)) \<and>
               (\<not> promote mv \<longrightarrow>
                  \<not> ((type piece = pawn \<or> type piece = lance) \<and>
                       row to = (if player = sente then 1 else 9)) \<and>
                  \<not> (type piece = knight \<and>
                       (if player = sente then row to \<le> 2 else row to \<ge> 8))) \<and>
               \<not> isInCheck (fst (applyMove b mv)) player))"
proof (intro conjI)
  show "isLegalMove b m player \<longleftrightarrow> \<not> isInCheck (fst (applyMove b m)) player"
    by (simp add: isLegalMove_def)
  show "\<forall>pos. validPos pos \<longrightarrow>
            getPieceAt (fst (applyMove b m)) pos =
              (if pos = moveTo m then
                 Some (if promote m \<and> canPromote (type mp) \<and> \<not> isPromotedPiece (type mp)
                       then mp\<lparr>type := the (PROMOTION_MAP (type mp)), isPromoted := True\<rparr>
                       else mp)
               else if pos = moveFrom m then None
               else getPieceAt b pos)"
    using applyMove_squares [OF assms(1-4)] by blast
  show "\<forall>mv \<in> set (getLegalMovesForPiece b fromPos player).
            \<not> isInCheck (fst (applyMove b mv)) player"
  proof
    fix mv assume "mv \<in> set (getLegalMovesForPiece b fromPos player)"
    then obtain piece to where "mv \<in> set (movesToTarget b fromPos piece player to)"
      unfolding in_getLegalMovesForPiece by blast
    then have "isLegalMove b mv player" using in_movesToTarget by blast
    then show "\<not> isInCheck (fst (applyMove b mv)) player" by (simp add: isLegalMove_def)
  qed
  show "\<forall>mv. mv \<in> set (getLegalMovesForPiece b fromPos player) \<longleftrightarrow>
            (\<exists>piece to.
               getPieceAt b fromPos = Some piece \<and> owner piece = player \<and>
               to \<in> set (getRawMoves b fromPos (type piece) player) \<and>
               moveFrom mv = fromPos \<and> moveTo mv = to \<and> movePiece mv = type piece \<and>
               captured mv = map_option type (getPieceAt b to) \<and>
               (promote mv \<longrightarrow>
                  type piece \<in> {rook, bishop, silver, knight, lance, pawn} \<and>
                  (if player = sente then row fromPos \<le> 3 \<or> row to \<le> 3
                   else row fromPos \<ge> 7 \<or> row to \<ge> 7)) \<and>
               (\<not> promote mv \<longrightarrow>
                  \<not> ((type piece = pawn \<or> type piece = lance) \<and>
                       row to = (if player = sente then 1 else 9)) \<and>
                  \<not> (type piece = knight \<and>
                       (if player = sente then row to \<le> 2 else row to \<ge> 8))) \<and>
               \<not> isInCheck (fst (applyMove b mv)) player)"
    using getLegalMovesForPiece_iff by blast
qed

theorem C1_witness:
  "wfBoard promotionBoard \<and>
   isLegalMove promotionBoard pawnPush sente \<and>
   \<not> isInCheck (fst (applyMove promotionBoard pawnPush)) sente \<and>
   getPieceAt (fst (applyMove promotionBoard pawnPush)) \<lparr>col = 5, row = 1\<rparr>
     = Some \<lparr>type = promotedPawn, owner = sente, isPromoted = True\<rparr> \<and>
   getPieceAt (fst (applyMove promotionBoard pawnPush)) \<lparr>col = 5, row = 2\<rparr> = None \<and>
   length (getLegalMovesForPiece promotionBoard \<lparr>col = 3, row = 4\<rparr> sente) = 8 \<and>
   list_all (\<lambda>mv. \<not> isInCheck (fst (applyMove promotionBoard mv)) sente)
     (getLegalMovesForPiece promotionBoard \<lparr>col = 3, row = 4\<rparr> sente) \<and>
   pawnPush \<in> set (getLegalMovesForPiece promotionBoard \<lparr>col = 5, row = 2\<rparr> sente) \<and>
   wfBoard dropEscapeBoard \<and>
   \<lparr>col = 9, row = 8\<rparr>
     \<in> set (getRawMoves dropEscapeBoard \<lparr>col = 9, row = 9\<rparr> king sente) \<and>
   isInCheck (fst (applyMove dropEscapeBoard kingStep)) sente \<and>
   \<not> isLegalMove dropEscapeBoard kingStep sente \<and>
   kingStep \<notin> set (getLegalMovesForPiece dropEscapeBoard \<lparr>col = 9, row = 9\<rparr> sente)"
proof -
  have wf: "wfBoard promotionBoard" by code_simp
  have vf: "validPos (moveFrom pawnPush)" by code_simp
  have vt: "validPos (moveTo pawnPush)" by code_simp
  have mp: "getPieceAt promotionBoard (moveFrom pawnPush) = Some (createPiece pawn sente)"
    by code_simp
  have vp: "validPos \<lparr>col = 3, row = 4\<rparr>" by code_simp
  note th = C1_legal_moves_leave_king_unattacked [OF wf vf vt mp vp, of sente]
  have legal: "isLegalMove promotionBoard pawnPush sente" by code_simp
  have n: "length (getLegalMovesForPiece promotionBoard \<lparr>col = 3, row = 4\<rparr> sente) = 8"
    by code_simp
  have v1: "validPos \<lparr>col = 5, row = 1\<rparr>" and v2: "validPos \<lparr>col = 5, row = 2\<rparr>"
    by (simp_all add: validPos_def isValidPosition_def)
  note sqs = th [THEN conjunct2, THEN conjunct1, rule_format]
  from sqs [OF v1] have sq1: "getPieceAt (fst (applyMove promotionBoard pawnPush)) \<lparr>col = 5, row = 1\<rparr>
     = Some \<lparr>type = promotedPawn, owner = sente, isPromoted = True\<rparr>"
    by (simp add: pawnPush_def createPiece_def canPromote_def isPromotedPiece_def)
  from sqs [OF v2] have sq2: "getPieceAt (fst (applyMove promotionBoard pawnPush)) \<lparr>col = 5, row = 2\<rparr>
     = None"
    by (simp add: pawnPush_def)
  from th [THEN conjunct1] legal
  have safe: "\<not> isInCheck (fst (applyMove promotionBoard pawnPush)) sente"
    by blast
  from th [THEN conjunct2, THEN conjunct2, THEN conjunct1] have all: "list_all (\<lambda>mv. \<not> isInCheck (fst (applyMove promotionBoard mv)) sente)
     (getLegalMovesForPiece promotionBoard \<lparr>col = 3, row = 4\<rparr> sente)"
    by (simp only: list_all_iff)
  note th2 = C1_legal_moves_leave_king_unattacked [OF wf vf vt mp v2, of sente]
  have piece: "getPieceAt promotionBoard \<lparr>col = 5, row = 2\<rparr> = Some (createPiece pawn sente)"
    by code_simp
  have raw: "\<lparr>col = 5, row = 1\<rparr>
      \<in> set (getRawMoves promotionBoard \<lparr>col = 5, row = 2\<rparr> pawn sente)"
    by code_simp
  have target: "getPieceAt promotionBoard \<lparr>col = 5, row = 1\<rparr> = None" by code_simp
  have "\<exists>piece to.
      getPieceAt promotionBoard \<lparr>col = 5, row = 2\<rparr> = Some piece \<and> owner piece = sente \<and>
      to \<in> set (getRawMoves promotionBoard \<lparr>col = 5, row = 2\<rparr> (type piece) sente) \<and>
      moveFrom pawnPush = \<lparr>col = 5, row = 2\<rparr> \<and> moveTo pawnPush = to \<and>
      movePiece pawnPush = type piece \<and>
      captured pawnPush = map_option type (getPieceAt promotionBoard to) \<and>
      (promote pawnPush \<longrightarrow>
         type piece \<in> {rook, bishop, silver, knight, lance, pawn} \<and>
         (if sente = sente then row \<lparr>col = 5, row = 2\<rparr> \<le> 3 \<or> row to \<le> 3
          else row \<lparr>col = 5, row = 2\<rparr> \<ge> 7 \<or> row to \<ge> 7)) \<and>
      (\<not> promote pawnPush \<longrightarrow>
         \<not> ((type piece = pawn \<or> type piece = lance) \<and>
              row to = (if sente = sente then 1 else 9)) \<and>
         \<not> (type piece = knight \<and>
              (if sente = sente then row to \<le> 2 else row to \<ge> 8))) \<and>
      \<not> isInCheck (fst (applyMove promotionBoard pawnPush)) sente"
    using piece raw target safe
    by (intro exI [of _ "createPiece pawn sente"] exI [of _ "\<lparr>col = 5, row = 1\<rparr>"])
       (simp add: createPiece_def pawnPush_def)
  with th2 [THEN conjunct2, THEN conjunct2, THEN conjunct2] have returned:
    "pawnPush \<in> set (getLegalMovesForPiece promotionBoard \<lparr>col = 5, row = 2\<rparr> sente)"
    by blast
  have wf': "wfBoard dropEscapeBoard" by code_simp
  have kf: "validPos (moveFrom kingStep)" and kt: "validPos (moveTo kingStep)"
    by (simp_all add: kingStep_def validPos_def isValidPosition_def)
  have kp: "getPieceAt dropEscapeBoard (moveFrom kingStep) = Some (createPiece king sente)"
    by code_simp
  have k9: "validPos \<lparr>col = 9, row = 9\<rparr>" by (simp add: validPos_def isValidPosition_def)
  note th3 = C1_legal_moves_leave_king_unattacked [OF wf' kf kt kp k9, of sente]
  have kraw: "\<lparr>col = 9, row = 8\<rparr>
     \<in> set (getRawMoves dropEscapeBoard \<lparr>col = 9, row = 9\<rparr> king sente)"
    by code_simp
  have attacked: "isInCheck (fst (applyMove dropEscapeBoard kingStep)) sente" by code_simp
  from th3 [THEN conjunct1] attacked
  have illegal: "\<not> isLegalMove dropEscapeBoard kingStep sente" by blast
  from th3 [THEN conjunct2, THEN conjunct2, THEN conjunct2] attacked have notret:
    "kingStep \<notin> set (getLegalMovesForPiece dropEscapeBoard \<lparr>col = 9, row = 9\<rparr> sente)"
    by blast
  from wf legal safe sq1 sq2 n all returned wf' kraw attacked illegal notret
  show ?thesis by blast
qed

lemma movesToTarget_candidate:
  assumes "canPromote (type piece) \<and> \<not> isPromotedPiece (type piece)"
    and "canPromoteMove fromPos to player" and "\<not> mustPromote (type piece) to player"
  shows "\<lparr>moveFrom = fromPos, moveTo = to, movePiece = type piece,
           captured = map_option type (getPieceAt b to), promote = pr\<rparr>
           \<in> set (movesToTarget b fromPos piece player to)
         \<longleftrightarrow> isLegalMove b \<lparr>moveFrom = fromPos, moveTo = to, movePiece = type piece,
                  captured = map_option type (getPieceAt b to), promote = pr\<rparr> player"
  using assms by (cases pr) (auto simp: movesToTarget_def Let_def)

text \<open>
  C5. Among the moves \<open>getLegalMovesForPiece\<close> returns, a pawn or lance move onto the
  mover's farthest rank and a knight move onto one of the mover's farthest two ranks
  always has \<open>promote = True\<close>. For a promotable, not yet promoted piece and a raw
  destination such that origin or destination lies in the promotion zone and promotion
  is not forced, the promoting and the non-promoting move are each returned exactly when
  \<open>isLegalMove\<close> accepts them.
\<close>

theorem C5_forced_and_optional_promotion:
  assumes "wfBoard b" and "validPos fromPos"
  shows "(\<forall>mv \<in> set (getLegalMovesForPiece b fromPos player).
            ((movePiece mv = pawn \<or> movePiece mv = lance) \<and>
               row (moveTo mv) = (if player = sente then 1 else 9) \<longrightarrow> promote mv) \<and>
            (movePiece mv = knight \<and>
               (if player = sente then row (moveTo mv) \<le> 2 else row (moveTo mv) \<ge> 8)
               \<longrightarrow> promote mv)) \<and>
         (\<forall>piece to pr.
            getPieceAt b fromPos = Some piece \<and> owner piece = player \<and>
            to \<in> set (getRawMoves b fromPos (type piece) player) \<and>
            type piece \<in> {rook, bishop, silver, knight, lance, pawn} \<and>
            (if player = sente then row fromPos \<le> 3 \<or> row to \<le> 3
             else row fromPos \<ge> 7 \<or> row to \<ge> 7) \<and>
            \<not> ((type piece = pawn \<or> type piece = lance) \<and>
                 row to = (if player = sente then 1 else 9)) \<and>
            \<not> (type piece = knight \<and>
                 (if player = sente then row to \<le> 2 else row to \<ge> 8))
            \<longrightarrow>
            (\<lparr>moveFrom = fromPos, moveTo = to, movePiece = type piece,
               captured = map_option type (getPieceAt b to), promote = pr\<rparr>
               \<in> set (getLegalMovesForPiece b fromPos player)
             \<longleftrightarrow> isLegalMove b \<lparr>moveFrom = fromPos, moveTo = to, movePiece = type piece,
                      captured = map_option type (getPieceAt b to), promote = pr\<rparr> player))"
proof (intro conjI ballI allI impI)
  fix mv assume mv: "mv \<in> set (getLegalMovesForPiece b fromPos player)"
  then obtain piece to where in_t: "mv \<in> set (movesToTarget b fromPos piece player to)"
    unfolding in_getLegalMovesForPiece by blast
  note facts = in_movesToTarget [OF in_t]
  {
    assume a: "(movePiece mv = pawn \<or> movePiece mv = lance) \<and>
               row (moveTo mv) = (if player = sente then 1 else 9)"
    show "promote mv"
    proof (rule ccontr)
      assume np: "\<not> promote mv"
      from a facts have dead: "mustPromote (type piece) to player"
        by (auto simp: mustPromote_def isDeadPosition_iff)
      from a facts have "canPromote (type piece) \<and> \<not> isPromotedPiece (type piece)"
        by (auto simp: promotable_iff)
      moreover from a facts have "canPromoteMove fromPos to player"
        by (auto simp: canPromoteMove_def split: if_splits)
      ultimately show False using facts np dead by blast
    qed
  }
  {
    assume a: "movePiece mv = knight \<and>
               (if player = sente then row (moveTo mv) \<le> 2 else row (moveTo mv) \<ge> 8)"
    show "promote mv"
    proof (rule ccontr)
      assume np: "\<not> promote mv"
      from a facts have dead: "mustPromote (type piece) to player"
        by (auto simp: mustPromote_def isDeadPosition_iff)
      from a facts have "canPromote (type piece) \<and> \<not> isPromotedPiece (type piece)"
        by (auto simp: promotable_iff)
      moreover from a facts have "canPromoteMove fromPos to player"
        by (auto simp: canPromoteMove_def split: if_splits)
      ultimately show False using facts np dead by blast
    qed
  }
next
  fix piece :: Piece and to :: Position and pr :: bool
  let ?mv = "\<lparr>moveFrom = fromPos, moveTo = to, movePiece = type piece,
               captured = map_option type (getPieceAt b to), promote = pr\<rparr>"
  assume a: "getPieceAt b fromPos = Some piece \<and> owner piece = player \<and>
            to \<in> set (getRawMoves b fromPos (type piece) player) \<and>
            type piece \<in> {rook, bishop, silver, knight, lance, pawn} \<and>
            (if player = sente then row fromPos \<le> 3 \<or> row to \<le> 3
             else row fromPos \<ge> 7 \<or> row to \<ge> 7) \<and>
            \<not> ((type piece = pawn \<or> type piece = lance) \<and>
                 row to = (if player = sente then 1 else 9)) \<and>
            \<not> (type piece = knight \<and>
                 (if player = sente then row to \<le> 2 else row to \<ge> 8))"
  then have prom: "canPromote (type piece) \<and> \<not> isPromotedPiece (type piece)"
    by (simp only: promotable_iff)
  from a have zone: "canPromoteMove fromPos to player"
    by (simp add: canPromoteMove_def)
  from a have free: "\<not> mustPromote (type piece) to player"
    unfolding mustPromote_def isDeadPosition_iff by blast
  note cand = movesToTarget_candidate [OF prom zone free, of b pr]
  show "?mv \<in> set (getLegalMovesForPiece b fromPos player) \<longleftrightarrow> isLegalMove b ?mv player"
  proof
    assume "?mv \<in> set (getLegalMovesForPiece b fromPos player)"
    then obtain piece' to' where "?mv \<in> set (movesToTarget b fromPos piece' player to')"
      unfolding in_getLegalMovesForPiece by blast
    then show "isLegalMove b ?mv player" using in_movesToTarget by blast
  next
    assume "isLegalMove b ?mv player"
    with cand have "?mv \<in> set (movesToTarget b fromPos piece player to)" by simp
    with a show "?mv \<in> set (getLegalMovesForPiece b fromPos player)"
      unfolding in_getLegalMovesForPiece by blast
  qed
qed

theorem C5_witness:
  "wfBoard promotionBoard \<and>
   pawnPush \<in> set (getLegalMovesForPiece promotionBoard \<lparr>col = 5, row = 2\<rparr> sente) \<and>
   movePiece pawnPush = pawn \<and> row (moveTo pawnPush) = 1 \<and> promote pawnPush \<and>
   isLegalMove promotionBoard (silverStep True) sente \<and>
   isLegalMove promotionBoard (silverStep False) sente \<and>
   silverStep True \<in> set (getLegalMovesForPiece promotionBoard \<lparr>col = 3, row = 4\<rparr> sente) \<and>
   silverStep False \<in> set (getLegalMovesForPiece promotionBoard \<lparr>col = 3, row = 4\<rparr> sente)"
proof -
  have wf: "wfBoard promotionBoard" by code_simp
  have v1: "validPos \<lparr>col = 5, row = 2\<rparr>" and v2: "validPos \<lparr>col = 3, row = 4\<rparr>"
    by (simp_all add: validPos_def isValidPosition_def)
  have in1: "pawnPush \<in> set (getLegalMovesForPiece promotionBoard \<lparr>col = 5, row = 2\<rparr> sente)"
    by code_simp
  have far: "movePiece pawnPush = pawn" "row (moveTo pawnPush) = 1"
    by (simp_all add: pawnPush_def)
  from C5_forced_and_optional_promotion [OF wf v1, of sente] in1 far
  have forced: "promote pawnPush" by auto
  have piece: "getPieceAt promotionBoard \<lparr>col = 3, row = 4\<rparr> = Some (createPiece silver sente)"
    by code_simp
  have raw: "\<lparr>col = 3, row = 3\<rparr>
      \<in> set (getRawMoves promotionBoard \<lparr>col = 3, row = 4\<rparr> silver sente)"
    by code_simp
  have target: "getPieceAt promotionBoard \<lparr>col = 3, row = 3\<rparr> = None" by code_simp
  have l1: "isLegalMove promotionBoard (silverStep True) sente" by code_simp
  have l2: "isLegalMove promotionBoard (silverStep False) sente" by code_simp
  note opt = C5_forced_and_optional_promotion [OF wf v2, of sente, THEN conjunct2, rule_format,
      of "createPiece silver sente" "\<lparr>col = 3, row = 3\<rparr>"]
  from opt [of True] piece raw target l1
  have m1: "silverStep True
      \<in> set (getLegalMovesForPiece promotionBoard \<lparr>col = 3, row = 4\<rparr> sente)"
    by (simp add: createPiece_def silverStep_def)
  from opt [of False] piece raw target l2
  have m2: "silverStep False
      \<in> set (getLegalMovesForPiece promotionBoard \<lparr>col = 3, row = 4\<rparr> sente)"
    by (simp add: createPiece_def silverStep_def)
  from wf in1 far forced l1 l2 m1 m2 show ?thesis by simp
qed

lemma ownPawnOnFile_iff:
  "ownPawnOnFile b colIndex player \<longleftrightarrow>
     (\<exists>r<9. \<exists>piece. b ! r ! colIndex = Some piece \<and> type piece = pawn \<and>
        owner piece = player \<and> \<not> isPromoted piece)"
proof -
  have sq: "(case sq of None \<Rightarrow> False
             | Some piece \<Rightarrow> type piece = pawn \<and> owner piece = player \<and> \<not> isPromoted piece)
            \<longleftrightarrow> (\<exists>piece. sq = Some piece \<and> type piece = pawn \<and> owner piece = player \<and>
                   \<not> isPromoted piece)" for sq :: Square
    by (cases sq) auto
  show ?thesis
    unfolding ownPawnOnFile_def list_ex_iff by (simp add: sq Bex_def)
qed

lemma isDeadPosition_ofHand:
  "isDeadPosition (ofHand k) to player \<longleftrightarrow>
     ((k = Pawn \<or> k = Lance) \<and> row to = (if player = sente then 1 else 9)) \<or>
     (k = Knight \<and> (if player = sente then row to \<le> 2 else row to \<ge> 8))"
  by (cases k) (auto simp: isDeadPosition_def)

text \<open>
  C2. On a 9x9 board and for a destination on the board, \<open>isLegalDrop\<close> returns true
  exactly when: the reserve count of the kind is at least 1; the destination is empty;
  the destination is not an immobile square for the kind (pawn or lance on the farthest
  rank, knight on the farthest two ranks); for a pawn, no unpromoted pawn of the same
  owner stands on the destination file, on any rank; for a pawn, the opponent is not
  checkmated on the board after the drop, \<open>isCheckmate\<close> being called without a
  reserve; and the dropping side's king is not in check on the board after the drop.
\<close>

theorem C2_isLegalDrop_iff:
  assumes "wfBoard b" and "validPos (dropTo d)"
  shows "isLegalDrop b d player hand \<longleftrightarrow>
     hand (dropPiece d) \<ge> 1 \<and>
     getPieceAt b (dropTo d) = None \<and>
     \<not> ((dropPiece d = Pawn \<or> dropPiece d = Lance) \<and>
          row (dropTo d) = (if player = sente then 1 else 9)) \<and>
     \<not> (dropPiece d = Knight \<and>
          (if player = sente then row (dropTo d) \<le> 2 else row (dropTo d) \<ge> 8)) \<and>
     (dropPiece d = Pawn \<longrightarrow>
        \<not> (\<exists>r<9. \<exists>piece. b ! r ! nat (9 - col (dropTo d)) = Some piece \<and>
              type piece = pawn \<and> owner piece = player \<and> \<not> isPromoted piece)) \<and>
     (dropPiece d = Pawn \<longrightarrow>
        \<not> isCheckmate (applyDrop b d player) (opponentOf player) None) \<and>
     \<not> isInCheck (applyDrop b d player) player"
proof -
  have cnt: "(\<not> hand (dropPiece d) \<le> 0) = (hand (dropPiece d) \<ge> 1)" by auto
  have colIndex: "nat (snd (positionToIndex (dropTo d))) = nat (9 - col (dropTo d))"
    by (simp add: positionToIndex_def)
  show ?thesis
    unfolding isLegalDrop_def colIndex ownPawnOnFile_iff isDeadPosition_ofHand
    using cnt by (simp only: if_False if_True split: if_splits) blast
qed

theorem C2_witness:
  "wfBoard dropEscapeBoard \<and>
   isLegalDrop dropEscapeBoard goldDrop sente oneGold \<and>
   oneGold (dropPiece goldDrop) \<ge> 1 \<and>
   getPieceAt dropEscapeBoard (dropTo goldDrop) = None \<and>
   \<not> isInCheck (applyDrop dropEscapeBoard goldDrop sente) sente \<and>
   onePawn (dropPiece pawnDrop) \<ge> 1 \<and>
   dropEscapeBoard ! 7 ! nat (9 - col (dropTo pawnDrop)) = Some (createPiece pawn sente) \<and>
   \<not> isLegalDrop dropEscapeBoard pawnDrop sente onePawn"
proof -
  have wf: "wfBoard dropEscapeBoard" by code_simp
  have v1: "validPos (dropTo goldDrop)" and v2: "validPos (dropTo pawnDrop)"
    by (simp_all add: validPos_def isValidPosition_def goldDrop_def pawnDrop_def)
  have legal: "isLegalDrop dropEscapeBoard goldDrop sente oneGold" by code_simp
  from C2_isLegalDrop_iff [OF wf v1, of sente oneGold] legal
  have rhs: "oneGold (dropPiece goldDrop) \<ge> 1 \<and>
      getPieceAt dropEscapeBoard (dropTo goldDrop) = None \<and>
      \<not> isInCheck (applyDrop dropEscapeBoard goldDrop sente) sente"
    by blast
  have cnt: "onePawn (dropPiece pawnDrop) \<ge> 1"
    by (simp add: onePawn_def pawnDrop_def)
  have own: "dropEscapeBoard ! 7 ! nat (9 - col (dropTo pawnDrop)) = Some (createPiece pawn sente)"
    by code_simp
  have "\<exists>r<9. \<exists>piece. dropEscapeBoard ! r ! nat (9 - col (dropTo pawnDrop)) = Some piece \<and>
          type piece = pawn \<and> owner piece = sente \<and> \<not> isPromoted piece"
    using own by (intro exI [of _ 7] exI [of _ "createPiece pawn sente"])
      (simp add: createPiece_def)
  moreover have "dropPiece pawnDrop = Pawn" by (simp add: pawnDrop_def)
  ultimately have "\<not> isLegalDrop dropEscapeBoard pawnDrop sente onePawn"
    using C2_isLegalDrop_iff [OF wf v2, of sente onePawn] by blast
  with wf legal rhs cnt own show ?thesis by simp
qed

text \<open>
  C8. \<open>removeFromHand\<close> throws whenever the count of the kind is at most 0 and returns
  no hand; for a positive count it returns the hand with that kind one lower and the
  other kinds as they were. \<open>promotePiece\<close> throws for every kind without a promoted
  variant (king, gold and the six promoted kinds) and returns the promoted kind for the
  six others.
\<close>

theorem C8_contract_violations_throw:
  "(hand k \<le> 0 \<longrightarrow> removeFromHand hand k = Inl (CannotRemoveFromHand k)) \<and>
   (hand k > 0 \<longrightarrow>
      (\<exists>h'. removeFromHand hand k = Inr h' \<and> h' k = hand k - 1 \<and>
            (\<forall>k'. k' \<noteq> k \<longrightarrow> h' k' = hand k'))) \<and>
   (t \<in> {king, gold, promotedRook, promotedBishop, promotedSilver, promotedKnight,
          promotedLance, promotedPawn} \<longrightarrow> promotePiece t = Inl (CannotPromote t)) \<and>
   promotePiece rook = Inr promotedRook \<and>
   promotePiece bishop = Inr promotedBishop \<and>
   promotePiece silver = Inr promotedSilver \<and>
   promotePiece knight = Inr promotedKnight \<and>
   promotePiece lance = Inr promotedLance \<and>
   promotePiece pawn = Inr promotedPawn"
  by (auto simp: removeFromHand_def promotePiece_def)

theorem C8_witness:
  "removeFromHand createEmptyHand Gold = Inl (CannotRemoveFromHand Gold) \<and>
   (\<exists>h'. removeFromHand oneGold Gold = Inr h' \<and> h' Gold = 0 \<and> h' Pawn = 0) \<and>
   promotePiece king = Inl (CannotPromote king) \<and>
   promotePiece promotedPawn = Inl (CannotPromote promotedPawn) \<and>
   promotePiece pawn = Inr promotedPawn"
proof -
  have e: "createEmptyHand Gold \<le> 0" by (simp add: createEmptyHand_def)
  have p: "oneGold Gold > 0" by (simp add: oneGold_def)
  from C8_contract_violations_throw [of createEmptyHand Gold king] e
  have a: "removeFromHand createEmptyHand Gold = Inl (CannotRemoveFromHand Gold)"
    and c: "promotePiece king = Inl (CannotPromote king)"
    and f: "promotePiece pawn = Inr promotedPawn"
    by simp_all
  from C8_contract_violations_throw [of oneGold Gold promotedPawn] p
  obtain h' where h: "removeFromHand oneGold Gold = Inr h'" "h' Gold = oneGold Gold - 1"
      "\<forall>k'. k' \<noteq> Gold \<longrightarrow> h' k' = oneGold k'"
    and d: "promotePiece promotedPawn = Inl (CannotPromote promotedPawn)"
    by auto
  from h have "removeFromHand oneGold Gold = Inr h' \<and> h' Gold = 0 \<and> h' Pawn = 0"
    by (simp add: oneGold_def createEmptyHand_def)
  with a c d f show ?thesis by blast
qed

lemma handEntry_nonpos: "count \<le> 0 \<Longrightarrow> handEntry count letter = []"
  by (simp add: handEntry_def)

lemma lowerChar_letters:
  "lowerChar CHR ''K'' = CHR ''k''" "lowerChar CHR ''R'' = CHR ''r''"
  "lowerChar CHR ''B'' = CHR ''b''" "lowerChar CHR ''G'' = CHR ''g''"
  "lowerChar CHR ''S'' = CHR ''s''" "lowerChar CHR ''N'' = CHR ''n''"
  "lowerChar CHR ''L'' = CHR ''l''" "lowerChar CHR ''P'' = CHR ''p''"
  "lowerChar CHR ''+'' = CHR ''+''"
  by code_simp+

lemma pieceToSfen_spec: "pieceToSfen p = spec_pieceSfen p"
  by (cases "type p"; cases "owner p")
     (simp_all add: pieceToSfen_def spec_pieceSfen_def toLowerCase_def lowerChar_letters)

lemma takeWhile_empty_run:
  "takeWhile (\<lambda>sq. sq = None) (replicate j None @ ys)
     = replicate j None @ takeWhile (\<lambda>sq. sq = None) ys"
  by (induction j) simp_all

lemma dropWhile_empty_run:
  "dropWhile (\<lambda>sq. sq = None) (replicate j None @ ys) = dropWhile (\<lambda>sq. sq = None) ys"
  by (induction j) simp_all

lemma numberToString_digit:
  "1 \<le> k \<Longrightarrow> k \<le> 9 \<Longrightarrow> numberToString (int k) = [''123456789'' ! (k - 1)]"
proof -
  assume "1 \<le> k" "k \<le> 9"
  then have "k \<in> {1, 2, 3, 4, 5, 6, 7, 8, 9}" by auto
  moreover have "list_all (\<lambda>k. numberToString (int k) = [''123456789'' ! (k - 1)])
      [1, 2, 3, 4, 5, 6, 7, 8, 9]"
    by code_simp
  ultimately show ?thesis by (auto simp: list_all_iff)
qed

lemma spec_rowSfen_run:
  assumes "1 \<le> k" and "ys = [] \<or> (\<exists>p rest. ys = Some p # rest)"
  shows "spec_rowSfen (replicate k None @ ys) = (''123456789'' ! (k - 1)) # spec_rowSfen ys"
proof -
  from assms(1) obtain j where k: "k = Suc j" by (cases k) auto
  have tw: "takeWhile (\<lambda>sq. sq = None) ys = []" and dw: "dropWhile (\<lambda>sq. sq = None) ys = ys"
    using assms(2) by auto
  show ?thesis
    unfolding k by (simp add: takeWhile_empty_run dropWhile_empty_run tw dw)
qed

lemma foldl_sfenSquare:
  "k + length xs \<le> 9 \<Longrightarrow>
   (case foldl sfenSquare (str, int k) xs of
      (rowStr, emptyCount) \<Rightarrow>
        if emptyCount > 0 then rowStr @ numberToString emptyCount else rowStr)
   = str @ spec_rowSfen (replicate k None @ xs)"
proof (induction xs arbitrary: str k)
  case Nil
  show ?case
  proof (cases "k = 0")
    case True
    then show ?thesis by simp
  next
    case False
    with Nil have k: "1 \<le> k" "k \<le> 9" by auto
    have "spec_rowSfen (replicate k None @ []) = (''123456789'' ! (k - 1)) # spec_rowSfen []"
      using k(1) by (intro spec_rowSfen_run) simp_all
    with k show ?thesis by (simp add: numberToString_digit)
  qed
next
  case (Cons x xs)
  show ?case
  proof (cases x)
    case None
    from Cons.prems have "Suc k + length xs \<le> 9" by simp
    from Cons.IH [OF this, of str]
    have ih: "(case foldl sfenSquare (str, int (Suc k)) xs of
      (rowStr, emptyCount) \<Rightarrow>
        if emptyCount > 0 then rowStr @ numberToString emptyCount else rowStr)
      = str @ spec_rowSfen (replicate (Suc k) None @ xs)" .
    have e: "replicate k None @ (None :: Square) # xs = replicate (Suc k) None @ xs"
      by (simp add: replicate_app_Cons_same)
    have step: "sfenSquare (str, int k) None = (str, int (Suc k))"
      by (simp add: sfenSquare_def)
    show ?thesis by (simp only: None foldl_Cons step e ih)
  next
    case (Some p)
    let ?str = "(if int k > 0 then str @ numberToString (int k) else str) @ pieceToSfen p"
    have step: "sfenSquare (str, int k) (Some p) = (?str, int 0)"
      by (simp add: sfenSquare_def)
    from Cons.prems have "0 + length xs \<le> 9" by simp
    from Cons.IH [OF this, of ?str]
    have ih: "(case foldl sfenSquare (?str, int 0) xs of
      (rowStr, emptyCount) \<Rightarrow>
        if emptyCount > 0 then rowStr @ numberToString emptyCount else rowStr)
      = ?str @ spec_rowSfen xs" by simp
    have rhs: "str @ spec_rowSfen (replicate k None @ Some p # xs) = ?str @ spec_rowSfen xs"
    proof (cases "k = 0")
      case True
      then show ?thesis by (simp add: pieceToSfen_spec)
    next
      case False
      with Cons.prems have k: "1 \<le> k" "k \<le> 9" by auto
      have "spec_rowSfen (replicate k None @ Some p # xs)
            = (''123456789'' ! (k - 1)) # spec_rowSfen (Some p # xs)"
        using k(1) by (intro spec_rowSfen_run) simp_all
      with k show ?thesis by (simp add: numberToString_digit pieceToSfen_spec)
    qed
    show ?thesis by (simp only: Some foldl_Cons step ih rhs)
  qed
qed

lemma rowToSfen_spec:
  assumes "length (b ! r) = 9"
  shows "rowToSfen b r = spec_rowSfen (b ! r)"
proof -
  have "map (\<lambda>c. b ! r ! c) [0..<9] = b ! r"
    using assms map_nth [of "b ! r"] by simp
  then have "foldl (\<lambda>acc c. sfenSquare acc (b ! r ! c)) ([], 0) [0..<9]
        = foldl sfenSquare ([], int 0) (b ! r)"
    by (metis foldl_map of_nat_0)
  moreover have "(case foldl sfenSquare ([], int 0) (b ! r) of
      (rowStr, emptyCount) \<Rightarrow>
        if emptyCount > 0 then rowStr @ numberToString emptyCount else rowStr)
     = [] @ spec_rowSfen (replicate 0 None @ b ! r)"
    using assms by (intro foldl_sfenSquare) simp
  ultimately show ?thesis by (simp add: rowToSfen_def)
qed

lemma joinWith_spec: "joinWith ''/'' xs = spec_join xs"
  by (induction "''/''" xs rule: joinWith.induct) simp_all

lemma boardToSfen_spec:
  assumes "wfBoard b"
  shows "boardToSfen b = spec_boardSfen b"
proof -
  from assms have len: "length b = 9" and rows: "\<And>r. r < 9 \<Longrightarrow> length (b ! r) = 9"
    using wfBoard_rows by auto
  have "map (rowToSfen b) [0..<9] = map (\<lambda>r. spec_rowSfen (b ! r)) [0..<9]"
    using rows by (simp add: rowToSfen_spec)
  also have "\<dots> = map spec_rowSfen (map (\<lambda>r. b ! r) [0..<9])" by simp
  also have "map (\<lambda>r. b ! r) [0..<9] = b" using len map_nth [of b] by simp
  finally show ?thesis by (simp add: boardToSfen_def spec_boardSfen_def joinWith_spec)
qed

lemma handEntry_spec: "handEntry n [c] = spec_handEntry n c"
  by (auto simp: handEntry_def spec_handEntry_def)

lemma spec_handEntry_Nil_iff: "spec_handEntry n c = [] \<longleftrightarrow> n \<le> 0"
  by (simp add: spec_handEntry_def)

lemma handsToSfen_spec: "handsToSfen hs = spec_handsSfen hs"
proof -
  have lower: "toLowerCase ''R'' = ''r''" "toLowerCase ''B'' = ''b''" "toLowerCase ''G'' = ''g''"
    "toLowerCase ''S'' = ''s''" "toLowerCase ''N'' = ''n''" "toLowerCase ''L'' = ''l''"
    "toLowerCase ''P'' = ''p''"
    by (simp_all add: toLowerCase_def lowerChar_letters)
  show ?thesis
    unfolding handsToSfen_def spec_handsSfen_def handPieces_def Let_def
    by (simp only: list.map concat.simps sfenMap.simps lower handEntry_spec append_Nil2
          append_is_Nil_conv spec_handEntry_Nil_iff list.pred_inject append_assoc)
       (simp add: conj_ac)
qed

text \<open>
  C6. \<open>gameStateToSfen\<close> depends on the board, the hands and the side to move only: two
  states that agree on the three get the same string, whatever their histories, counters
  and flags. The string is the board encoding, a space, \<open>b\<close> or \<open>w\<close>, a space and the
  hands encoding. The board encoding is the one of the specification: the nine ranks in
  order, separated by \<open>/\<close>, each rank written left to right with a digit for every maximal
  run of empty squares and for every piece its letter, upper case for the first player
  and lower case for the second, with \<open>+\<close> in front when promoted (\<open>spec_boardSfen\<close>). The
  hands encoding is the one of the specification as well: for every kind held, the count
  (left out when 1) and then the letter, the first player's hand before the second's, and
  \<open>-\<close> when no count of either hand is positive (\<open>spec_handsSfen\<close>).
\<close>

theorem C6_sfen_depends_on_position_only:
  assumes "board s1 = board s2" and "hands s1 = hands s2"
    and "currentPlayer s1 = currentPlayer s2"
  shows "gameStateToSfen s1 = gameStateToSfen s2 \<and>
         gameStateToSfen s1 =
           boardToSfen (board s1) @ '' '' @ (if currentPlayer s1 = sente then ''b'' else ''w'')
             @ '' '' @ handsToSfen (hands s1) \<and>
         ((\<forall>p k. hands s1 p k \<le> 0) \<longrightarrow> handsToSfen (hands s1) = ''-'') \<and>
         (wfBoard (board s1) \<longrightarrow> boardToSfen (board s1) = spec_boardSfen (board s1)) \<and>
         handsToSfen (hands s1) = spec_handsSfen (hands s1)"
proof -
  have "gameStateToSfen s1 = gameStateToSfen s2"
    using assms by (simp add: gameStateToSfen_def)
  moreover have "gameStateToSfen s1 =
      boardToSfen (board s1) @ '' '' @ (if currentPlayer s1 = sente then ''b'' else ''w'')
        @ '' '' @ handsToSfen (hands s1)"
    by (simp add: gameStateToSfen_def)
  moreover have "(\<forall>p k. hands s1 p k \<le> 0) \<longrightarrow> handsToSfen (hands s1) = ''-''"
    by (simp add: handsToSfen_def handEntry_nonpos)
  moreover have "wfBoard (board s1) \<longrightarrow> boardToSfen (board s1) = spec_boardSfen (board s1)"
    by (simp add: boardToSfen_spec)
  moreover have "handsToSfen (hands s1) = spec_handsSfen (hands s1)"
    by (rule handsToSfen_spec)
  ultimately show ?thesis by blast
qed

theorem C6_witness:
  "board createInitialState = board createInitialGameState \<and>
   positionHistory createInitialState \<noteq> positionHistory createInitialGameState \<and>
   gameStateToSfen createInitialState = gameStateToSfen createInitialGameState \<and>
   gameStateToSfen createInitialState =
     ''lnsgkgsnl/1r5b1/ppppppppp/9/9/9/PPPPPPPPP/1B5R1/LNSGKGSNL b -'' \<and>
   handsToSfen (hands createInitialState) = ''-'' \<and>
   wfBoard (board sfenExampleState) \<and>
   board sfenExampleState = board sfenExampleReplay \<and>
   hands sfenExampleState = hands sfenExampleReplay \<and>
   currentPlayer sfenExampleState = currentPlayer sfenExampleReplay \<and>
   positionHistory sfenExampleState \<noteq> positionHistory sfenExampleReplay \<and>
   moveCount sfenExampleState \<noteq> moveCount sfenExampleReplay \<and>
   hands sfenExampleState gote Pawn = 12 \<and>
   gameStateToSfen sfenExampleState = gameStateToSfen sfenExampleReplay \<and>
   gameStateToSfen sfenExampleReplay = ''l3k3+R/9/9/9/9/9/+p1P6/9/4K4 w B2Pg12p'' \<and>
   spec_boardSfen (board sfenExampleState) = ''l3k3+R/9/9/9/9/9/+p1P6/9/4K4'' \<and>
   boardToSfen (board sfenExampleState) = ''l3k3+R/9/9/9/9/9/+p1P6/9/4K4'' \<and>
   spec_handsSfen (hands sfenExampleState) = ''B2Pg12p'' \<and>
   handsToSfen (hands sfenExampleState) = ''B2Pg12p''"
proof -
  have b: "board createInitialState = board createInitialGameState"
    and h: "hands createInitialState = hands createInitialGameState"
    and c: "currentPlayer createInitialState = currentPlayer createInitialGameState"
    by (simp_all add: createInitialState_def)
  have ph: "positionHistory createInitialState \<noteq> positionHistory createInitialGameState"
    by (simp add: createInitialState_def createInitialGameState_def)
  have e: "\<forall>p k. hands createInitialState p k \<le> 0"
    by (simp add: createInitialState_def createInitialGameState_def createEmptyHand_def)
  have v: "gameStateToSfen createInitialGameState =
     ''lnsgkgsnl/1r5b1/ppppppppp/9/9/9/PPPPPPPPP/1B5R1/LNSGKGSNL b -''"
    by code_simp
  from C6_sfen_depends_on_position_only [OF b h c] e v b ph
  have first: "board createInitialState = board createInitialGameState \<and>
   positionHistory createInitialState \<noteq> positionHistory createInitialGameState \<and>
   gameStateToSfen createInitialState = gameStateToSfen createInitialGameState \<and>
   gameStateToSfen createInitialState =
     ''lnsgkgsnl/1r5b1/ppppppppp/9/9/9/PPPPPPPPP/1B5R1/LNSGKGSNL b -'' \<and>
   handsToSfen (hands createInitialState) = ''-''"
    by simp
  have b2: "board sfenExampleState = board sfenExampleReplay"
    and h2: "hands sfenExampleState = hands sfenExampleReplay"
    and c2: "currentPlayer sfenExampleState = currentPlayer sfenExampleReplay"
    by (simp_all add: sfenExampleReplay_def)
  have wf: "wfBoard (board sfenExampleState)" by code_simp
  have ph2: "positionHistory sfenExampleState \<noteq> positionHistory sfenExampleReplay"
    by (simp add: sfenExampleReplay_def sfenExampleState_def createInitialGameState_def)
  have mc: "moveCount sfenExampleState \<noteq> moveCount sfenExampleReplay"
    by (simp add: sfenExampleReplay_def sfenExampleState_def createInitialGameState_def)
  have pw: "hands sfenExampleState gote Pawn = 12"
    by (simp add: sfenExampleState_def)
  have sb: "spec_boardSfen (board sfenExampleState) = ''l3k3+R/9/9/9/9/9/+p1P6/9/4K4''"
    by code_simp
  have sh: "spec_handsSfen (hands sfenExampleState) = ''B2Pg12p''"
    by code_simp
  have cp: "currentPlayer sfenExampleState = gote"
    by (simp add: sfenExampleState_def)
  note th = C6_sfen_depends_on_position_only [OF b2 h2 c2]
  have same: "gameStateToSfen sfenExampleState = gameStateToSfen sfenExampleReplay"
    using th by (rule conjunct1)
  have bs: "boardToSfen (board sfenExampleState) = ''l3k3+R/9/9/9/9/9/+p1P6/9/4K4''"
    using th wf sb by simp
  have hs: "handsToSfen (hands sfenExampleState) = ''B2Pg12p''"
    using th sh by simp
  have "gameStateToSfen sfenExampleState = ''l3k3+R/9/9/9/9/9/+p1P6/9/4K4 w B2Pg12p''"
    using th [THEN conjunct2, THEN conjunct1] unfolding bs hs cp by simp
  then have full: "gameStateToSfen sfenExampleReplay = ''l3k3+R/9/9/9/9/9/+p1P6/9/4K4 w B2Pg12p''"
    using same by simp
  from first wf b2 h2 c2 ph2 mc pw same full sb bs sh hs show ?thesis
    by blast
qed

lemma applyMove_promote_irrelevant:
  assumes "\<not> (canPromote (movePiece m) \<and> \<not> isPromotedPiece (movePiece m))"
    and "\<forall>mp. getPieceAt b (moveFrom m) = Some mp \<longrightarrow> type mp = movePiece m"
  shows "applyMove b (m\<lparr>promote := True\<rparr>) = applyMove b (m\<lparr>promote := False\<rparr>)"
  using assms
  by (auto simp: applyMove_def cloneBoard_id getPieceAt_nth positionToIndex_def Let_def
      split: option.splits)

lemma relocationEscapes_iff:
  "relocationEscapes b player r c \<longleftrightarrow>
     (\<exists>piece to. b ! r ! c = Some piece \<and> owner piece = player \<and>
        to \<in> set (getRawMoves b (indexToPosition r c) (type piece) player) \<and>
        (isLegalMove b \<lparr>moveFrom = indexToPosition r c, moveTo = to, movePiece = type piece,
                         captured = None, promote = False\<rparr> player \<or>
         (canPromote (type piece) \<and> \<not> isPromotedPiece (type piece) \<and>
          isLegalMove b \<lparr>moveFrom = indexToPosition r c, moveTo = to, movePiece = type piece,
                          captured = None, promote = True\<rparr> player)))"
  by (cases "b ! r ! c") (auto simp: relocationEscapes_def list_ex_iff Let_def)

lemma indexToPosition_index:
  "r < 9 \<Longrightarrow> c < 9 \<Longrightarrow>
   nat (row (indexToPosition r c) - 1) = r \<and> nat (9 - col (indexToPosition r c)) = c"
  by (simp add: indexToPosition_def)

text \<open>The first loop of \<open>isCheckmate\<close> finds no escape exactly when no relocation is legal.\<close>

lemma no_relocationEscapes_iff:
  "(\<forall>r<9. \<forall>c<9. \<not> relocationEscapes b player r c) \<longleftrightarrow>
   (\<forall>r<9. \<forall>c<9. \<forall>piece to pr.
      b ! r ! c = Some piece \<and> owner piece = player \<and>
      to \<in> set (getRawMoves b (indexToPosition r c) (type piece) player) \<longrightarrow>
      \<not> isLegalMove b \<lparr>moveFrom = indexToPosition r c, moveTo = to, movePiece = type piece,
                        captured = None, promote = pr\<rparr> player)"
proof
  assume none: "\<forall>r<9. \<forall>c<9. \<not> relocationEscapes b player r c"
  show "\<forall>r<9. \<forall>c<9. \<forall>piece to pr.
      b ! r ! c = Some piece \<and> owner piece = player \<and>
      to \<in> set (getRawMoves b (indexToPosition r c) (type piece) player) \<longrightarrow>
      \<not> isLegalMove b \<lparr>moveFrom = indexToPosition r c, moveTo = to, movePiece = type piece,
                        captured = None, promote = pr\<rparr> player"
  proof (intro allI impI)
    fix r c :: nat and piece :: Piece and to :: Position and pr :: bool
    let ?mv = "\<lambda>p. \<lparr>moveFrom = indexToPosition r c, moveTo = to, movePiece = type piece,
                        captured = None, promote = p\<rparr>"
    assume rc: "r < 9" "c < 9"
      and a: "b ! r ! c = Some piece \<and> owner piece = player \<and>
              to \<in> set (getRawMoves b (indexToPosition r c) (type piece) player)"
    from none rc have ne: "\<not> relocationEscapes b player r c" by blast
    from ne a have f: "\<not> isLegalMove b (?mv False) player"
      unfolding relocationEscapes_iff by blast
    from ne a have t: "canPromote (type piece) \<and> \<not> isPromotedPiece (type piece)
        \<Longrightarrow> \<not> isLegalMove b (?mv True) player"
      unfolding relocationEscapes_iff by blast
    have at_from: "getPieceAt b (indexToPosition r c) = b ! r ! c"
      using rc by (simp add: getPieceAt_nth indexToPosition_def)
    have same: "applyMove b (?mv True) = applyMove b (?mv False)"
      if np: "\<not> (canPromote (type piece) \<and> \<not> isPromotedPiece (type piece))"
    proof -
      have p1: "\<not> (canPromote (movePiece (?mv False)) \<and>
                     \<not> isPromotedPiece (movePiece (?mv False)))"
        using np by simp
      have p2: "\<forall>mp. getPieceAt b (moveFrom (?mv False)) = Some mp
                  \<longrightarrow> type mp = movePiece (?mv False)"
        using a by (simp add: at_from)
      have "applyMove b ((?mv False)\<lparr>promote := True\<rparr>)
            = applyMove b ((?mv False)\<lparr>promote := False\<rparr>)"
        using p1 p2 by (rule applyMove_promote_irrelevant)
      then show ?thesis by simp
    qed
    show "\<not> isLegalMove b (?mv pr) player"
    proof (cases pr)
      case False
      with f show ?thesis by simp
    next
      case True
      show ?thesis
      proof (cases "canPromote (type piece) \<and> \<not> isPromotedPiece (type piece)")
        case True
        with t \<open>pr\<close> show ?thesis by simp
      next
        case False
        with same f \<open>pr\<close> show ?thesis by (simp add: isLegalMove_def)
      qed
    qed
  qed
next
  assume all: "\<forall>r<9. \<forall>c<9. \<forall>piece to pr.
      b ! r ! c = Some piece \<and> owner piece = player \<and>
      to \<in> set (getRawMoves b (indexToPosition r c) (type piece) player) \<longrightarrow>
      \<not> isLegalMove b \<lparr>moveFrom = indexToPosition r c, moveTo = to, movePiece = type piece,
                        captured = None, promote = pr\<rparr> player"
  show "\<forall>r<9. \<forall>c<9. \<not> relocationEscapes b player r c"
    unfolding relocationEscapes_iff using all by blast
qed

lemma isCheckmate_None_iff:
  "isCheckmate b player None \<longleftrightarrow>
     isInCheck b player \<and> (\<forall>r<9. \<forall>c<9. \<not> relocationEscapes b player r c)"
  by (auto simp: isCheckmate_def list_ex_iff set_boardIndices)

text \<open>
  The same test as in \<open>isStalemate\<close>, stopping at the first piece that has a legal move;
  used to evaluate positions.
\<close>

lemma isStalemate_code [code]:
  "isStalemate state =
     (if isInCheck (board state) (currentPlayer state) then False
      else if List.find (\<lambda>(r, c).
                case board state ! r ! c of
                  None \<Rightarrow> False
                | Some piece \<Rightarrow>
                    if owner piece = currentPlayer state
                    then getLegalMovesForPiece (board state) (indexToPosition r c)
                           (currentPlayer state) \<noteq> []
                    else False)
              boardIndices = None
           then getLegalDrops (board state) (currentPlayer state)
                  (hands state (currentPlayer state)) = []
           else False)"
proof -
  let ?P = "\<lambda>(r, c).
                case board state ! r ! c of
                  None \<Rightarrow> False
                | Some piece \<Rightarrow>
                    if owner piece = currentPlayer state
                    then getLegalMovesForPiece (board state) (indexToPosition r c)
                           (currentPlayer state) \<noteq> []
                    else False"
  let ?f = "\<lambda>(r, c).
        case board state ! r ! c of
          None \<Rightarrow> []
        | Some piece \<Rightarrow>
            if owner piece = currentPlayer state
            then map MoveOf (getLegalMovesForPiece (board state) (indexToPosition r c)
                               (currentPlayer state))
            else []"
  have pt: "?P x \<longleftrightarrow> ?f x \<noteq> []" for x
    by (cases x) (auto split: option.splits)
  have "concat (map ?f boardIndices) = [] \<longleftrightarrow> List.find ?P boardIndices = None"
    unfolding find_None_iff concat_eq_Nil_conv using pt by auto
  then show ?thesis
    by (simp add: isStalemate_def getAllLegalMoves_def)
qed

lemma checkGameResult_checkmate_iff:
  "checkGameResult s = checkmate w \<longleftrightarrow>
     w = opponentOf (currentPlayer s) \<and> isCheckmate (board s) (currentPlayer s) None"
  by (auto simp: checkGameResult_def Let_def split: prod.splits option.splits bool.splits)

text \<open>
  C9. \<open>checkGameResult\<close> calls \<open>isCheckmate\<close> without a hand, so board relocations, and
  only those, count as escapes: the result is checkmate (for the opponent of the side to
  move, and for nobody else) exactly when the side to move is in check and no relocation
  of one of its pieces, promoting or not, is legal. What the reserves hold plays no part.
\<close>

theorem C9_checkmate_ignores_drops:
  assumes "wfBoard (board s)"
  shows "(checkGameResult s = checkmate (opponentOf (currentPlayer s)) \<longleftrightarrow>
            isInCheck (board s) (currentPlayer s) \<and>
            (\<forall>r<9. \<forall>c<9. \<forall>piece to pr.
               board s ! r ! c = Some piece \<and> owner piece = currentPlayer s \<and>
               to \<in> set (getRawMoves (board s) (indexToPosition r c) (type piece)
                           (currentPlayer s))
               \<longrightarrow>
               \<not> isLegalMove (board s)
                   \<lparr>moveFrom = indexToPosition r c, moveTo = to, movePiece = type piece,
                    captured = None, promote = pr\<rparr> (currentPlayer s))) \<and>
         (\<forall>w. checkGameResult s = checkmate w \<longrightarrow> w = opponentOf (currentPlayer s))"
proof
  have "checkGameResult s = checkmate (opponentOf (currentPlayer s)) \<longleftrightarrow>
        isCheckmate (board s) (currentPlayer s) None"
    by (simp add: checkGameResult_checkmate_iff)
  also have "\<dots> \<longleftrightarrow> isInCheck (board s) (currentPlayer s) \<and>
        (\<forall>r<9. \<forall>c<9. \<not> relocationEscapes (board s) (currentPlayer s) r c)"
    by (rule isCheckmate_None_iff)
  finally show "checkGameResult s = checkmate (opponentOf (currentPlayer s)) \<longleftrightarrow>
            isInCheck (board s) (currentPlayer s) \<and>
            (\<forall>r<9. \<forall>c<9. \<forall>piece to pr.
               board s ! r ! c = Some piece \<and> owner piece = currentPlayer s \<and>
               to \<in> set (getRawMoves (board s) (indexToPosition r c) (type piece)
                           (currentPlayer s))
               \<longrightarrow>
               \<not> isLegalMove (board s)
                   \<lparr>moveFrom = indexToPosition r c, moveTo = to, movePiece = type piece,
                    captured = None, promote = pr\<rparr> (currentPlayer s))"
    by (simp only: no_relocationEscapes_iff)
  show "\<forall>w. checkGameResult s = checkmate w \<longrightarrow> w = opponentOf (currentPlayer s)"
    by (simp add: checkGameResult_checkmate_iff)
qed

theorem C9_witness:
  "wfBoard (board dropEscapeState) \<and>
   isInCheck (board dropEscapeState) (currentPlayer dropEscapeState) \<and>
   hands dropEscapeState (currentPlayer dropEscapeState) Gold = 1 \<and>
   isLegalDrop (board dropEscapeState) goldDrop (currentPlayer dropEscapeState)
     (hands dropEscapeState (currentPlayer dropEscapeState)) \<and>
   \<not> isCheckmate (board dropEscapeState) (currentPlayer dropEscapeState)
       (Some (hands dropEscapeState (currentPlayer dropEscapeState))) \<and>
   checkGameResult dropEscapeState = checkmate gote \<and>
   wfBoard (board stepEscapeState) \<and>
   isInCheck (board stepEscapeState) (currentPlayer stepEscapeState) \<and>
   isLegalMove (board stepEscapeState) kingSideStep (currentPlayer stepEscapeState) \<and>
   checkGameResult stepEscapeState \<noteq> checkmate gote \<and>
   checkGameResult stepEscapeState = ongoing"
proof -
  have wf: "wfBoard (board dropEscapeState)" by code_simp
  have chk: "isInCheck (board dropEscapeState) (currentPlayer dropEscapeState)" by code_simp
  have "\<forall>r<9. \<forall>c<9.
      \<not> relocationEscapes (board dropEscapeState) (currentPlayer dropEscapeState) r c"
    unfolding all_squares_iff by code_simp
  then have none: "\<forall>r<9. \<forall>c<9. \<forall>piece to pr.
      board dropEscapeState ! r ! c = Some piece \<and> owner piece = currentPlayer dropEscapeState \<and>
      to \<in> set (getRawMoves (board dropEscapeState) (indexToPosition r c) (type piece)
                  (currentPlayer dropEscapeState))
      \<longrightarrow>
      \<not> isLegalMove (board dropEscapeState)
          \<lparr>moveFrom = indexToPosition r c, moveTo = to, movePiece = type piece,
           captured = None, promote = pr\<rparr> (currentPlayer dropEscapeState)"
    by (simp only: no_relocationEscapes_iff)
  have gold: "hands dropEscapeState (currentPlayer dropEscapeState) Gold = 1" by code_simp
  have dr: "isLegalDrop (board dropEscapeState) goldDrop (currentPlayer dropEscapeState)
     (hands dropEscapeState (currentPlayer dropEscapeState))" by code_simp
  have nm: "\<not> isCheckmate (board dropEscapeState) (currentPlayer dropEscapeState)
       (Some (hands dropEscapeState (currentPlayer dropEscapeState)))" by code_simp
  have opp: "opponentOf (currentPlayer dropEscapeState) = gote" by code_simp
  from C9_checkmate_ignores_drops [OF wf, THEN conjunct1] chk none
  have "checkGameResult dropEscapeState = checkmate (opponentOf (currentPlayer dropEscapeState))"
    by blast
  with opp have mate: "checkGameResult dropEscapeState = checkmate gote" by simp
  have wf': "wfBoard (board stepEscapeState)" by code_simp
  have chk': "isInCheck (board stepEscapeState) (currentPlayer stepEscapeState)" by code_simp
  have legal: "isLegalMove (board stepEscapeState) kingSideStep (currentPlayer stepEscapeState)"
    by code_simp
  have sq: "board stepEscapeState ! 8 ! 0 = Some (createPiece king sente)" by code_simp
  have cp: "currentPlayer stepEscapeState = sente" by code_simp
  have raw: "\<lparr>col = 8, row = 9\<rparr>
      \<in> set (getRawMoves (board stepEscapeState) (indexToPosition 8 0) king sente)"
    by code_simp
  have mv: "kingSideStep = \<lparr>moveFrom = indexToPosition 8 0, moveTo = \<lparr>col = 8, row = 9\<rparr>,
      movePiece = type (createPiece king sente), captured = None, promote = False\<rparr>"
    by (simp add: kingSideStep_def indexToPosition_def createPiece_def)
  have "\<not> (\<forall>r<9. \<forall>c<9. \<forall>piece to pr.
      board stepEscapeState ! r ! c = Some piece \<and> owner piece = currentPlayer stepEscapeState \<and>
      to \<in> set (getRawMoves (board stepEscapeState) (indexToPosition r c) (type piece)
                  (currentPlayer stepEscapeState))
      \<longrightarrow>
      \<not> isLegalMove (board stepEscapeState)
          \<lparr>moveFrom = indexToPosition r c, moveTo = to, movePiece = type piece,
           captured = None, promote = pr\<rparr> (currentPlayer stepEscapeState))"
  proof
    assume a: "\<forall>r<9. \<forall>c<9. \<forall>piece to pr.
      board stepEscapeState ! r ! c = Some piece \<and> owner piece = currentPlayer stepEscapeState \<and>
      to \<in> set (getRawMoves (board stepEscapeState) (indexToPosition r c) (type piece)
                  (currentPlayer stepEscapeState))
      \<longrightarrow>
      \<not> isLegalMove (board stepEscapeState)
          \<lparr>moveFrom = indexToPosition r c, moveTo = to, movePiece = type piece,
           captured = None, promote = pr\<rparr> (currentPlayer stepEscapeState)"
    have "\<not> isLegalMove (board stepEscapeState)
          \<lparr>moveFrom = indexToPosition 8 0, moveTo = \<lparr>col = 8, row = 9\<rparr>,
           movePiece = type (createPiece king sente),
           captured = None, promote = False\<rparr> (currentPlayer stepEscapeState)"
      using a [rule_format, of 8 0 "createPiece king sente" "\<lparr>col = 8, row = 9\<rparr>" False]
        sq cp raw by (simp add: createPiece_def)
    with legal mv show False by simp
  qed
  with C9_checkmate_ignores_drops [OF wf', THEN conjunct1] cp
  have nomate: "checkGameResult stepEscapeState \<noteq> checkmate gote"
    by (simp add: opponentOf_def)
  have res: "checkGameResult stepEscapeState = ongoing" by code_simp
  from wf chk gold dr nm mate wf' chk' legal nomate res show ?thesis by blast
qed

lemma foldl_count:
  "foldl (\<lambda>n pos. if pos = x then n + 1 else n) (k::nat) xs = k + count_list xs x"
  by (induction xs arbitrary: k) auto

lemma countPositionRepetitions_eq:
  "countPositionRepetitions history currentPosition = count_list history currentPosition + 1"
  by (simp add: countPositionRepetitions_def foldl_count)

text \<open>
  Away from checkmate, stalemate and check, \<open>checkGameResult\<close> declares the draw exactly
  when the encoding of the state occurs at least three times in \<open>positionHistory\<close>.
\<close>

lemma checkGameResult_quiet:
  assumes "\<not> isCheckmate (board s) (currentPlayer s) None" and "\<not> isStalemate s"
    and "\<not> isInCheck (board s) (currentPlayer s)"
  shows "checkGameResult s =
     (if count_list (positionHistory s) (gameStateToSfen s) \<ge> 3 then repetition draw
      else ongoing)"
  using assms
  by (simp add: checkGameResult_def isPerpeturalCheck_def isRepetition_def
      countPositionRepetitions_eq Let_def)

lemma minimax_multiStage_depth_zero:
  "minimax_multiStage state 0 alpha beta maximizing count =
     (case quiescenceSearch state alpha beta maximizing (count + 1) 0 of
        Inl e \<Rightarrow> Inl e
      | Inr (sc, count') \<Rightarrow> Inr \<lparr>score = sc, bestMove = None, nodesSearched = count'\<rparr>)"
  by (subst minimax_multiStage.simps) (simp add: Let_def)

lemma minimax_intermediate_depth_zero:
  "minimax_intermediate state 0 alpha beta maximizing count =
     Inr \<lparr>score = Num (evaluateBoardAdvanced state), bestMove = None,
          nodesSearched = count + 1\<rparr>"
  by (subst minimax_intermediate.simps) (simp add: Let_def)

lemma quiescence_cap:
  "depth \<ge> 6 \<Longrightarrow>
   quiescenceSearch state alpha beta maximizing count depth =
     Inr (Num (quickEvaluate state), count + 1)"
  by (subst quiescenceSearch.simps) (simp add: Let_def MAX_QUIESCENCE_DEPTH_def)

lemma quiescence_beta_cutoff:
  "depth < 6 \<Longrightarrow> maximizing \<Longrightarrow> beta \<le> Num (quickEvaluate state) \<Longrightarrow>
   quiescenceSearch state alpha beta maximizing count depth = Inr (beta, count + 1)"
  by (subst quiescenceSearch.simps) (simp add: Let_def MAX_QUIESCENCE_DEPTH_def)

lemma quiescence_alpha_cutoff:
  "depth < 6 \<Longrightarrow> \<not> maximizing \<Longrightarrow> Num (quickEvaluate state) \<le> alpha \<Longrightarrow>
   quiescenceSearch state alpha beta maximizing count depth = Inr (alpha, count + 1)"
  by (subst quiescenceSearch.simps) (simp add: Let_def MAX_QUIESCENCE_DEPTH_def)

lemma quiescence_stand_pat:
  "depth < 6 \<Longrightarrow>
   (maximizing \<longrightarrow> Num (quickEvaluate state) < beta) \<Longrightarrow>
   (\<not> maximizing \<longrightarrow> alpha < Num (quickEvaluate state)) \<Longrightarrow>
   filter isCaptureMove (getAllLegalMoves state) = [] \<Longrightarrow>
   quiescenceSearch state alpha beta maximizing count depth =
     Inr (Num (quickEvaluate state), count + 1)"
  by (subst quiescenceSearch.simps)
     (auto simp: Let_def MAX_QUIESCENCE_DEPTH_def not_le not_less)

lemma quiescence_captures_only:
  "depth < 6 \<Longrightarrow>
   (maximizing \<longrightarrow> Num (quickEvaluate state) < beta) \<Longrightarrow>
   (\<not> maximizing \<longrightarrow> alpha < Num (quickEvaluate state)) \<Longrightarrow>
   filter isCaptureMove (getAllLegalMoves state) \<noteq> [] \<Longrightarrow>
   quiescenceSearch state alpha beta maximizing count depth =
     quiescenceLoop state (quickEvaluate state)
       (sort_key (\<lambda>m. - captureOrderValue m) (filter isCaptureMove (getAllLegalMoves state)))
       (if maximizing \<and> Num (quickEvaluate state) > alpha then Num (quickEvaluate state)
        else alpha)
       (if \<not> maximizing \<and> Num (quickEvaluate state) < beta then Num (quickEvaluate state)
        else beta)
       maximizing (count + 1) depth"
  by (subst quiescenceSearch.simps)
     (auto simp: Let_def MAX_QUIESCENCE_DEPTH_def not_le not_less)

lemma sorted_captures:
  "set (sort_key (\<lambda>m. - captureOrderValue m) (filter isCaptureMove (getAllLegalMoves state)))
     = {m \<in> set (getAllLegalMoves state). isCaptureMove m} \<and>
   sorted_wrt (\<lambda>a b. captureOrderValue a \<ge> captureOrderValue b)
     (sort_key (\<lambda>m. - captureOrderValue m) (filter isCaptureMove (getAllLegalMoves state)))"
proof -
  let ?xs = "sort_key (\<lambda>m. - captureOrderValue m) (filter isCaptureMove (getAllLegalMoves state))"
  have "sorted (map (\<lambda>m. - captureOrderValue m) ?xs)" by (rule sorted_sort_key)
  then have "sorted_wrt (\<lambda>a b. - captureOrderValue a \<le> - captureOrderValue b) ?xs"
    by (simp add: sorted_map)
  then have "sorted_wrt (\<lambda>a b. captureOrderValue a \<ge> captureOrderValue b) ?xs"
    by simp
  then show ?thesis by auto
qed

lemma delta_pruning_max:
  "captured a = Some c \<Longrightarrow> Num (standPat + PIECE_VALUES c + 200) < alpha \<Longrightarrow>
   quiescenceLoop state standPat (MoveOf a # ms) alpha beta True count depth =
     quiescenceLoop state standPat ms alpha beta True count depth"
  by (simp add: deltaPruned_def DELTA_MARGIN_def)

lemma delta_pruning_min:
  "captured a = Some c \<Longrightarrow> beta < Num (standPat - PIECE_VALUES c - 200) \<Longrightarrow>
   quiescenceLoop state standPat (MoveOf a # ms) alpha beta False count depth =
     quiescenceLoop state standPat ms alpha beta False count depth"
  by (simp add: deltaPruned_def DELTA_MARGIN_def)

text \<open>
  C7 (amended). In multiStageEngine.ts, \<open>minimax\<close> at depth zero returns what
  \<open>quiescenceSearch\<close> returns. \<open>quiescenceSearch\<close> returns the static score once its
  depth reaches 6. Below that depth it returns \<open>beta\<close> when the maximizer's stand-pat
  score is at least \<open>beta\<close>, and \<open>alpha\<close> when the minimizer's is at most \<open>alpha\<close>;
  otherwise it returns the stand-pat score when no legal capture exists, and else runs
  its loop over the legal captures only, sorted by captured value minus a tenth of the
  capturing value, largest first, from the window raised to the stand-pat score. The loop
  skips a capture whose captured value plus the margin 200 cannot bring the stand-pat
  score back to the bound. In intermediate.ts, \<open>minimax\<close> at depth zero returns the raw
  static evaluation \<open>evaluateBoardAdvanced\<close> and counts one node.
\<close>

theorem C7_depth_zero_quiescence:
  "minimax_multiStage state 0 alpha beta maximizing count =
     (case quiescenceSearch state alpha beta maximizing (count + 1) 0 of
        Inl e \<Rightarrow> Inl e
      | Inr (sc, count') \<Rightarrow> Inr \<lparr>score = sc, bestMove = None, nodesSearched = count'\<rparr>) \<and>
   (depth \<ge> 6 \<longrightarrow>
      quiescenceSearch state alpha beta maximizing count depth =
        Inr (Num (quickEvaluate state), count + 1)) \<and>
   (depth < 6 \<and> maximizing \<and> beta \<le> Num (quickEvaluate state) \<longrightarrow>
      quiescenceSearch state alpha beta maximizing count depth = Inr (beta, count + 1)) \<and>
   (depth < 6 \<and> \<not> maximizing \<and> Num (quickEvaluate state) \<le> alpha \<longrightarrow>
      quiescenceSearch state alpha beta maximizing count depth = Inr (alpha, count + 1)) \<and>
   (depth < 6 \<and> (maximizing \<longrightarrow> Num (quickEvaluate state) < beta) \<and>
    (\<not> maximizing \<longrightarrow> alpha < Num (quickEvaluate state)) \<longrightarrow>
      quiescenceSearch state alpha beta maximizing count depth =
        (if filter isCaptureMove (getAllLegalMoves state) = []
         then Inr (Num (quickEvaluate state), count + 1)
         else quiescenceLoop state (quickEvaluate state)
                (sort_key (\<lambda>m. - captureOrderValue m)
                   (filter isCaptureMove (getAllLegalMoves state)))
                (if maximizing \<and> Num (quickEvaluate state) > alpha
                 then Num (quickEvaluate state) else alpha)
                (if \<not> maximizing \<and> Num (quickEvaluate state) < beta
                 then Num (quickEvaluate state) else beta)
                maximizing (count + 1) depth)) \<and>
   set (sort_key (\<lambda>m. - captureOrderValue m) (filter isCaptureMove (getAllLegalMoves state)))
     = {m \<in> set (getAllLegalMoves state). isCaptureMove m} \<and>
   sorted_wrt (\<lambda>a b. captureOrderValue a \<ge> captureOrderValue b)
     (sort_key (\<lambda>m. - captureOrderValue m) (filter isCaptureMove (getAllLegalMoves state))) \<and>
   (captured a = Some c \<and> Num (standPat + PIECE_VALUES c + 200) < alpha \<longrightarrow>
      quiescenceLoop state standPat (MoveOf a # ms) alpha beta True count depth =
        quiescenceLoop state standPat ms alpha beta True count depth) \<and>
   (captured a = Some c \<and> beta < Num (standPat - PIECE_VALUES c - 200) \<longrightarrow>
      quiescenceLoop state standPat (MoveOf a # ms) alpha beta False count depth =
        quiescenceLoop state standPat ms alpha beta False count depth) \<and>
   minimax_intermediate state 0 alpha beta maximizing count =
     Inr \<lparr>score = Num (evaluateBoardAdvanced state), bestMove = None,
          nodesSearched = count + 1\<rparr>"
proof (intro conjI impI)
  show "minimax_multiStage state 0 alpha beta maximizing count =
     (case quiescenceSearch state alpha beta maximizing (count + 1) 0 of
        Inl e \<Rightarrow> Inl e
      | Inr (sc, count') \<Rightarrow> Inr \<lparr>score = sc, bestMove = None, nodesSearched = count'\<rparr>)"
    by (rule minimax_multiStage_depth_zero)
  show "quiescenceSearch state alpha beta maximizing count depth =
        Inr (Num (quickEvaluate state), count + 1)" if "depth \<ge> 6"
    using that by (rule quiescence_cap)
  show "quiescenceSearch state alpha beta maximizing count depth = Inr (beta, count + 1)"
    if "depth < 6 \<and> maximizing \<and> beta \<le> Num (quickEvaluate state)"
    using that by (simp add: quiescence_beta_cutoff)
  show "quiescenceSearch state alpha beta maximizing count depth = Inr (alpha, count + 1)"
    if "depth < 6 \<and> \<not> maximizing \<and> Num (quickEvaluate state) \<le> alpha"
    using that by (simp add: quiescence_alpha_cutoff)
  show "quiescenceSearch state alpha beta maximizing count depth =
        (if filter isCaptureMove (getAllLegalMoves state) = []
         then Inr (Num (quickEvaluate state), count + 1)
         else quiescenceLoop state (quickEvaluate state)
                (sort_key (\<lambda>m. - captureOrderValue m)
                   (filter isCaptureMove (getAllLegalMoves state)))
                (if maximizing \<and> Num (quickEvaluate state) > alpha
                 then Num (quickEvaluate state) else alpha)
                (if \<not> maximizing \<and> Num (quickEvaluate state) < beta
                 then Num (quickEvaluate state) else beta)
                maximizing (count + 1) depth)"
    if "depth < 6 \<and> (maximizing \<longrightarrow> Num (quickEvaluate state) < beta) \<and>
        (\<not> maximizing \<longrightarrow> alpha < Num (quickEvaluate state))"
  proof (cases "filter isCaptureMove (getAllLegalMoves state) = []")
    case True
    from that True
    have "quiescenceSearch state alpha beta maximizing count depth =
            Inr (Num (quickEvaluate state), count + 1)"
      by (intro quiescence_stand_pat) simp_all
    with True show ?thesis by simp
  next
    case False
    from that False
    have "quiescenceSearch state alpha beta maximizing count depth =
            quiescenceLoop state (quickEvaluate state)
                (sort_key (\<lambda>m. - captureOrderValue m)
                   (filter isCaptureMove (getAllLegalMoves state)))
                (if maximizing \<and> Num (quickEvaluate state) > alpha
                 then Num (quickEvaluate state) else alpha)
                (if \<not> maximizing \<and> Num (quickEvaluate state) < beta
                 then Num (quickEvaluate state) else beta)
                maximizing (count + 1) depth"
      by (intro quiescence_captures_only) simp_all
    with False show ?thesis by simp
  qed
  show "set (sort_key (\<lambda>m. - captureOrderValue m)
              (filter isCaptureMove (getAllLegalMoves state)))
     = {m \<in> set (getAllLegalMoves state). isCaptureMove m}"
    using sorted_captures by blast
  show "sorted_wrt (\<lambda>a b. captureOrderValue a \<ge> captureOrderValue b)
     (sort_key (\<lambda>m. - captureOrderValue m) (filter isCaptureMove (getAllLegalMoves state)))"
    using sorted_captures by blast
  show "quiescenceLoop state standPat (MoveOf a # ms) alpha beta True count depth =
        quiescenceLoop state standPat ms alpha beta True count depth"
    if "captured a = Some c \<and> Num (standPat + PIECE_VALUES c + 200) < alpha"
    using that delta_pruning_max by blast
  show "quiescenceLoop state standPat (MoveOf a # ms) alpha beta False count depth =
        quiescenceLoop state standPat ms alpha beta False count depth"
    if "captured a = Some c \<and> beta < Num (standPat - PIECE_VALUES c - 200)"
    using that delta_pruning_min by blast
  show "minimax_intermediate state 0 alpha beta maximizing count =
     Inr \<lparr>score = Num (evaluateBoardAdvanced state), bestMove = None,
          nodesSearched = count + 1\<rparr>"
    by (rule minimax_intermediate_depth_zero)
qed

theorem C7_witness:
  "quickEvaluate hangingRookState = - 900 \<and>
   filter isCaptureMove (getAllLegalMoves hangingRookState) = [MoveOf rookCapture] \<and>
   minimax_multiStage hangingRookState 0 NegInfinity Infinity True 0 =
     Inr \<lparr>score = Num 1300, bestMove = None, nodesSearched = 3\<rparr> \<and>
   quiescenceSearch hangingRookState NegInfinity Infinity True 0 6 = Inr (Num (- 900), 1) \<and>
   quiescenceSearch hangingRookState (Num (- 2000)) (Num (- 1000)) True 0 0
     = Inr (Num (- 1000), 1) \<and>
   quiescenceSearch hangingRookState (Num (- 800)) (Num 0) False 0 0 = Inr (Num (- 800), 1) \<and>
   quiescenceSearch hangingRookState NegInfinity Infinity True 0 0 =
     quiescenceLoop hangingRookState (- 900) [MoveOf rookCapture] (Num (- 900)) Infinity
       True 1 0 \<and>
   quiescenceLoop hangingRookState (- 900) [MoveOf rookCapture] (Num 500) Infinity True 1 0
     = Inr (Num 500, 1) \<and>
   quiescenceLoop hangingRookState 2000 [MoveOf rookCapture] NegInfinity (Num 500) False 1 0
     = Inr (Num 500, 1) \<and>
   minimax_intermediate hangingRookState 0 NegInfinity Infinity True 0 =
     Inr \<lparr>score = Num (evaluateBoardAdvanced hangingRookState), bestMove = None,
          nodesSearched = 1\<rparr>"
proof -
  have sp: "quickEvaluate hangingRookState = - 900" by code_simp
  have caps: "filter isCaptureMove (getAllLegalMoves hangingRookState) = [MoveOf rookCapture]"
    by code_simp
  have q: "quiescenceSearch hangingRookState NegInfinity Infinity True 1 0 = Inr (Num 1300, 3)"
    by code_simp
  have cap: "captured rookCapture = Some rook" by (simp add: rookCapture_def)
  note th = C7_depth_zero_quiescence [of hangingRookState]
  from th [of NegInfinity Infinity True 0, THEN conjunct1] q
  have leaf: "minimax_multiStage hangingRookState 0 NegInfinity Infinity True 0 =
     Inr \<lparr>score = Num 1300, bestMove = None, nodesSearched = 3\<rparr>"
    by simp
  from th [of NegInfinity Infinity True 0 6, THEN conjunct2, THEN conjunct1] sp
  have capped: "quiescenceSearch hangingRookState NegInfinity Infinity True 0 6
      = Inr (Num (- 900), 1)"
    by simp
  from th [of "Num (- 2000)" "Num (- 1000)" True 0 0, THEN conjunct2, THEN conjunct2,
      THEN conjunct1] sp
  have bcut: "quiescenceSearch hangingRookState (Num (- 2000)) (Num (- 1000)) True 0 0
     = Inr (Num (- 1000), 1)"
    by simp
  from th [of "Num (- 800)" "Num 0" False 0 0, THEN conjunct2, THEN conjunct2,
      THEN conjunct2, THEN conjunct1] sp
  have acut: "quiescenceSearch hangingRookState (Num (- 800)) (Num 0) False 0 0
     = Inr (Num (- 800), 1)"
    by simp
  from th [of NegInfinity Infinity True 0 0, THEN conjunct2, THEN conjunct2,
      THEN conjunct2, THEN conjunct2, THEN conjunct1] sp caps
  have loop: "quiescenceSearch hangingRookState NegInfinity Infinity True 0 0 =
     quiescenceLoop hangingRookState (- 900) [MoveOf rookCapture] (Num (- 900)) Infinity
       True 1 0"
    by (simp add: less_number_def)
  from th [of "Num 500" Infinity True 1 0 rookCapture rook "- 900" "[]",
      THEN conjunct2, THEN conjunct2, THEN conjunct2, THEN conjunct2, THEN conjunct2,
      THEN conjunct2, THEN conjunct2, THEN conjunct1] cap
  have pmax: "quiescenceLoop hangingRookState (- 900) [MoveOf rookCapture] (Num 500) Infinity
      True 1 0 = Inr (Num 500, 1)"
    by (simp add: less_number_def)
  from th [of NegInfinity "Num 500" False 1 0 rookCapture rook 2000 "[]",
      THEN conjunct2, THEN conjunct2, THEN conjunct2, THEN conjunct2, THEN conjunct2,
      THEN conjunct2, THEN conjunct2, THEN conjunct2, THEN conjunct1] cap
  have pmin: "quiescenceLoop hangingRookState 2000 [MoveOf rookCapture] NegInfinity (Num 500)
      False 1 0 = Inr (Num 500, 1)"
    by (simp add: less_number_def)
  from th [of NegInfinity Infinity True 0, THEN conjunct2, THEN conjunct2, THEN conjunct2,
      THEN conjunct2, THEN conjunct2, THEN conjunct2, THEN conjunct2, THEN conjunct2,
      THEN conjunct2]
  have inter: "minimax_intermediate hangingRookState 0 NegInfinity Infinity True 0 =
     Inr \<lparr>score = Num (evaluateBoardAdvanced hangingRookState), bestMove = None,
          nodesSearched = 1\<rparr>"
    by simp
  from sp caps leaf capped bcut acut loop pmax pmin inter show ?thesis by blast
qed

text \<open>
  C7 as stated fails twice. With a capture at hand, \<open>minimax\<close> of intermediate.ts at depth
  zero returns its raw static evaluation after one node, not what a quiescence search
  from that node returns. And in the initial position, where no capture is legal,
  \<open>quiescenceSearch\<close> on a window below the stand-pat score 0 returns \<open>beta\<close>, not the
  stand-pat score.
\<close>

theorem C7_counterexample:
  "filter isCaptureMove (getAllLegalMoves hangingRookState) \<noteq> [] \<and>
   minimax_intermediate hangingRookState 0 NegInfinity Infinity True 0 =
     Inr \<lparr>score = Num (evaluateBoardAdvanced hangingRookState), bestMove = None,
          nodesSearched = 1\<rparr> \<and>
   minimax_intermediate hangingRookState 0 NegInfinity Infinity True 0 \<noteq>
     (case quiescenceSearch hangingRookState NegInfinity Infinity True 1 0 of
        Inl e \<Rightarrow> Inl e
      | Inr (sc, count') \<Rightarrow> Inr \<lparr>score = sc, bestMove = None, nodesSearched = count'\<rparr>) \<and>
   filter isCaptureMove (getAllLegalMoves createInitialGameState) = [] \<and>
   quickEvaluate createInitialGameState = 0 \<and>
   quiescenceSearch createInitialGameState (Num (- 10)) (Num (- 5)) True 0 0
     = Inr (Num (- 5), 1)"
proof -
  have caps: "filter isCaptureMove (getAllLegalMoves hangingRookState) \<noteq> []" by code_simp
  have inter: "minimax_intermediate hangingRookState 0 NegInfinity Infinity True 0 =
     Inr \<lparr>score = Num (evaluateBoardAdvanced hangingRookState), bestMove = None,
          nodesSearched = 1\<rparr>"
    by (simp add: minimax_intermediate_depth_zero)
  have q: "quiescenceSearch hangingRookState NegInfinity Infinity True 1 0 = Inr (Num 1300, 3)"
    by code_simp
  have diff: "minimax_intermediate hangingRookState 0 NegInfinity Infinity True 0 \<noteq>
     (case quiescenceSearch hangingRookState NegInfinity Infinity True 1 0 of
        Inl e \<Rightarrow> Inl e
      | Inr (sc, count') \<Rightarrow> Inr \<lparr>score = sc, bestMove = None, nodesSearched = count'\<rparr>)"
    unfolding inter q by simp
  have none: "filter isCaptureMove (getAllLegalMoves createInitialGameState) = []"
    by code_simp
  have sp: "quickEvaluate createInitialGameState = 0" by code_simp
  have cut: "quiescenceSearch createInitialGameState (Num (- 10)) (Num (- 5)) True 0 0
     = Inr (Num (- 5), 1)"
    by code_simp
  from caps inter diff none sp cut show ?thesis by blast
qed

text \<open>
  C4. From the initial state of the application, both kings step forward and back,
  twice. After the eighth move the initial position stands for the third time (at the
  start, after move 4 and after move 8); the side to move is not in check;
  \<open>executeMoveWithPromotion\<close> has appended the encoding of the new position to
  \<open>positionHistory\<close>, where it now occurs three times, and \<open>checkGameResult\<close> returns the
  repetition draw.
\<close>

theorem C4_draw_declared_at_third_occurrence:
  "(case playMoves createInitialState (kingShuffle @ kingShuffle) of
      Inl e \<Rightarrow> False
    | Inr s \<Rightarrow>
        board s = createInitialBoard \<and> currentPlayer s = sente \<and>
        \<not> isInCheck (board s) (currentPlayer s) \<and>
        length (positionHistory s) = 9 \<and>
        count_list (positionHistory s) (gameStateToSfen s) = 3 \<and>
        result s = repetition draw)"
  by code_simp

end
